theory Spec2Isabelle
  imports Complex_Main "HOL-Library.Multiset"
begin

section \<open>Data model\<close>

text \<open>
  The pipeline works on pandas DataFrames. A cell holds an integer, a float, a string or
  a timestamp; a missing value (NaN, None, NaT) is the absence of a cell. Floats are
  idealised as exact rationals (finite values, no binary rounding error) and integers are
  unbounded. A table is the ordered list of its column names together with the list of
  its rows in index order, each row mapping column names to cells. Tables carry the
  default positional index, as \<^verbatim>\<open>read_csv\<close> and \<^verbatim>\<open>reset_index(drop=True)\<close> produce it.
\<close>

record timestamp =
  ts_year :: nat
  ts_month :: nat
  ts_day :: nat
  ts_nanos :: nat

datatype cell = IntV int | FloatV rat | StrV string | DateV timestamp

type_synonym val = "cell option"

type_synonym row = "string \<Rightarrow> val"

record table =
  columns :: "string list"
  records :: "row list"

datatype error =
    KeyError string
  | AttributeError string
  | TypeError string
  | MergeError string
  | FileNotFoundError string
  | IsADirectoryError string

datatype number = NInt int | NFloat rat

text \<open>
  What pandas computes from the text of a cell, and how it groups and sorts, is library
  behaviour, not code of this repository. It enters the model as parameters, collected in
  one record:
  \<^item> \<open>parse_number c\<close>: \<^verbatim>\<open>pd.to_numeric(..., errors='coerce')\<close> on a cell that is not
    already a number (\<open>None\<close> is NaN);
  \<^item> \<open>parse_datetime fmt col c\<close>: \<^verbatim>\<open>pd.to_datetime(col, format=fmt, errors='coerce')\<close>
    at a cell \<open>c\<close> of the column \<open>col\<close> that is not already a timestamp (\<open>None\<close> is NaT;
    the result may depend on the whole column, since pandas infers a format from it);
  \<^item> \<open>str_of c\<close>: Python's \<^verbatim>\<open>str\<close> of a cell that is not a string;
  \<^item> \<open>groupby_sum keys df\<close>: \<^verbatim>\<open>df.groupby(keys, dropna=False).agg(total_revenue=
    ('order_total', 'sum'), total_units=('qty', 'sum')).reset_index()\<close>;
  \<^item> \<open>sort_values_desc c df\<close>: \<^verbatim>\<open>df.sort_values(c, ascending=False)\<close>.
\<close>

record lib =
  parse_number :: "cell \<Rightarrow> number option"
  parse_datetime :: "string option \<Rightarrow> val list \<Rightarrow> cell \<Rightarrow> timestamp option"
  str_of :: "cell \<Rightarrow> string"
  groupby_sum :: "string list \<Rightarrow> table \<Rightarrow> error + table"
  sort_values_desc :: "string \<Rightarrow> table \<Rightarrow> table"

section \<open>DataFrame primitives\<close>

definition empty :: "table \<Rightarrow> bool" where
  \<comment> \<open>\<^verbatim>\<open>df.empty\<close>: some axis has length 0\<close>
  "empty df = (records df = [] \<or> columns df = [])"

definition column :: "table \<Rightarrow> string \<Rightarrow> val list" where
  \<comment> \<open>\<^verbatim>\<open>df[c]\<close> for a column that is present\<close>
  "column df c = map (\<lambda>r. r c) (records df)"

definition select :: "bool list \<Rightarrow> 'a list \<Rightarrow> 'a list" where
  \<comment> \<open>boolean-mask indexing \<^verbatim>\<open>xs[mask]\<close>\<close>
  "select msk xs = map snd (filter fst (zip msk xs))"

definition mask_rows :: "bool list \<Rightarrow> table \<Rightarrow> table" where
  \<comment> \<open>\<^verbatim>\<open>df[mask].copy()\<close>: the columns stay, also when no row is left\<close>
  "mask_rows msk df = df\<lparr>records := select msk (records df)\<rparr>"

definition add_column :: "string \<Rightarrow> string list \<Rightarrow> string list" where
  "add_column c cs = (if c \<in> set cs then cs else cs @ [c])"

definition set_column :: "string \<Rightarrow> val list \<Rightarrow> table \<Rightarrow> table" where
  \<comment> \<open>\<^verbatim>\<open>df[c] = values\<close>, the values aligned with the rows of \<open>df\<close>\<close>
  "set_column c vs df =
     \<lparr>columns = add_column c (columns df),
      records = map (\<lambda>(r, v). r(c := v)) (zip (records df) vs)\<rparr>"

definition set_column_const :: "string \<Rightarrow> val \<Rightarrow> table \<Rightarrow> table" where
  \<comment> \<open>\<^verbatim>\<open>df[c] = scalar\<close>\<close>
  "set_column_const c v df =
     \<lparr>columns = add_column c (columns df), records = map (\<lambda>r. r(c := v)) (records df)\<rparr>"

fun union_columns :: "string list \<Rightarrow> string list \<Rightarrow> string list" where
  "union_columns cs [] = cs"
| "union_columns cs (d # ds) = union_columns (add_column d cs) ds"

fun concat_tables :: "table list \<Rightarrow> table" where
  \<comment> \<open>\<^verbatim>\<open>pd.concat(dfs, ignore_index=True)\<close>: the union of the columns in order of
      appearance, the rows one table after the other; a column a table lacks is NaN there\<close>
  "concat_tables [] = \<lparr>columns = [], records = []\<rparr>"
| "concat_tables (t # ts) =
     (let u = concat_tables ts
      in \<lparr>columns = union_columns (columns t) (columns u), records = records t @ records u\<rparr>)"

definition isna :: "val \<Rightarrow> bool" where
  "isna v = (v = None)"

definition convert_datetime :: "lib \<Rightarrow> string option \<Rightarrow> val list \<Rightarrow> val \<Rightarrow> val" where
  \<comment> \<open>\<^verbatim>\<open>pd.to_datetime(col, format=fmt, errors='coerce')\<close> at one value of the column: a
      missing value stays missing, a timestamp stays as it is, any other cell is parsed\<close>
  "convert_datetime L fmt col v =
     (case v of
        None \<Rightarrow> None
      | Some (DateV t) \<Rightarrow> Some (DateV t)
      | Some c \<Rightarrow> map_option DateV (parse_datetime L fmt col c))"

definition to_datetime :: "lib \<Rightarrow> string option \<Rightarrow> val list \<Rightarrow> val list" where
  "to_datetime L fmt col = map (convert_datetime L fmt col) col"

section \<open>readers.py\<close>

definition quote :: string where
  "quote = [CHR 0x27]"

definition strict_error :: "string \<Rightarrow> string option \<Rightarrow> string" where
  \<comment> \<open>\<^verbatim>\<open>f"Failed to parse '{column_name}' with format='{date_format}'"\<close>\<close>
  "strict_error column_name date_format =
     ''Failed to parse '' @ quote @ column_name @ quote @ '' with format='' @ quote
       @ (case date_format of None \<Rightarrow> ''None'' | Some f \<Rightarrow> f) @ quote"

definition truthy :: "string option \<Rightarrow> bool" where
  \<comment> \<open>\<^verbatim>\<open>if date_format:\<close> is false for \<^verbatim>\<open>None\<close> and for the empty string\<close>
  "truthy s = (s \<noteq> None \<and> s \<noteq> Some [])"

definition parse_date_column ::
  "lib \<Rightarrow> table \<Rightarrow> string \<Rightarrow> string option \<Rightarrow> error + (table \<times> table)" where
  "parse_date_column L df column_name date_format =
     (if column_name \<notin> set (columns df) then Inl (KeyError column_name)
      else
        let parsed = (if truthy date_format
                      then to_datetime L date_format (column df column_name)
                      else to_datetime L None (column df column_name));
            bad_mask = map isna parsed;
            bad0 = mask_rows bad_mask df;
            bad_df = (if \<not> empty bad0
                      then set_column_const ''_parse_error''
                             (Some (StrV (strict_error column_name date_format))) bad0
                      else bad0);
            good_mask = map Not bad_mask;
            good_df = set_column column_name (select good_mask parsed) (mask_rows good_mask df)
        in if \<not> empty bad_df then
             let fallback_parsed = to_datetime L None (column bad_df column_name);
                 still_bad_mask = map isna fallback_parsed;
                 still_good_mask = map Not still_bad_mask;
                 fallback_good = set_column column_name (select still_good_mask fallback_parsed)
                                   (mask_rows still_good_mask bad_df);
                 final_bad = set_column_const ''_parse_error''
                               (Some (StrV ''Flexible parsing also failed''))
                               (mask_rows still_bad_mask bad_df)
             in Inr (concat_tables [good_df, fallback_good], final_bad)
           else Inr (good_df, bad_df))"

section \<open>validation.py\<close>

text \<open>
  A schema class is used through \<^verbatim>\<open>SchemaClass.parse_obj(obj)\<close> only, which either returns
  or raises; the \<^verbatim>\<open>except Exception\<close> clause catches every exception and keeps its text.
  A schema is therefore a function from the row to the text of the exception, if any.
\<close>

type_synonym schema = "row \<Rightarrow> string option"

fun validate_rows :: "schema \<Rightarrow> row list \<Rightarrow> row list \<times> row list" where
  \<comment> \<open>the loop over \<^verbatim>\<open>iterrows()\<close>, filling \<^verbatim>\<open>good_rows\<close> and \<^verbatim>\<open>bad_rows\<close>\<close>
  "validate_rows S [] = ([], [])"
| "validate_rows S (r # rs) =
     (let (good_rows, bad_rows) = validate_rows S rs
      in case S r of
           None \<Rightarrow> (r # good_rows, bad_rows)
         | Some err \<Rightarrow> (good_rows, r(''_error'' := Some (StrV err)) # bad_rows))"

definition DataFrame :: "string list \<Rightarrow> row list \<Rightarrow> table" where
  \<comment> \<open>\<^verbatim>\<open>pd.DataFrame(list_of_rows)\<close>: the columns are those of the rows, none for an
      empty list\<close>
  "DataFrame cs rs = (if rs = [] then \<lparr>columns = [], records = []\<rparr>
                      else \<lparr>columns = cs, records = rs\<rparr>)"

definition validate_dataframe :: "table \<Rightarrow> schema \<Rightarrow> table \<times> table" where
  "validate_dataframe df S =
     (let (good_rows, bad_rows) = validate_rows S (records df)
      in (DataFrame (columns df) good_rows,
          DataFrame (add_column ''_error'' (columns df)) bad_rows))"

section \<open>transforms.py\<close>

definition lower_char :: "char \<Rightarrow> char" where
  \<comment> \<open>\<^verbatim>\<open>str.lower\<close> on ASCII letters\<close>
  "lower_char c =
     (case map_of (zip ''ABCDEFGHIJKLMNOPQRSTUVWXYZ'' ''abcdefghijklmnopqrstuvwxyz'') c of
        None \<Rightarrow> c | Some d \<Rightarrow> d)"

definition lower :: "string \<Rightarrow> string" where
  "lower s = map lower_char s"

definition rename_column :: "string \<Rightarrow> string \<Rightarrow> table \<Rightarrow> table" where
  \<comment> \<open>\<^verbatim>\<open>df.rename(columns={old: new})\<close>\<close>
  "rename_column old new df =
     \<lparr>columns = map (\<lambda>c. if c = old then new else c) (columns df),
      records = map (\<lambda>r. (r(old := None))(new := r old)) (records df)\<rparr>"

definition normalize_name :: "string \<Rightarrow> string list \<Rightarrow> table \<Rightarrow> table \<times> bool" where
  \<comment> \<open>a renaming loop of \<^verbatim>\<open>add_order_total\<close>: if no column is called \<open>name\<close>, every column
      whose lower-cased name is one of \<open>aliases\<close> is renamed to \<open>name\<close>. Two such columns
      become two columns of one name, which a row of the model cannot hold: the flag
      returned says that this happened.\<close>
  "normalize_name name aliases df =
     (if name \<in> set (columns df) then (df, False)
      else case filter (\<lambda>c. lower c \<in> set aliases) (columns df) of
             [] \<Rightarrow> (df, False)
           | [c] \<Rightarrow> (rename_column c name df, False)
           | _ \<Rightarrow> (df, True))"

definition to_numeric :: "lib \<Rightarrow> val \<Rightarrow> number option" where
  \<comment> \<open>\<^verbatim>\<open>pd.to_numeric(..., errors='coerce')\<close> at one cell\<close>
  "to_numeric L v =
     (case v of
        None \<Rightarrow> None
      | Some (IntV i) \<Rightarrow> Some (NInt i)
      | Some (FloatV q) \<Rightarrow> Some (NFloat q)
      | Some c \<Rightarrow> parse_number L c)"

definition trunc :: "rat \<Rightarrow> int" where
  \<comment> \<open>\<^verbatim>\<open>astype(int)\<close> on a float: towards zero\<close>
  "trunc q = (if 0 \<le> q then \<lfloor>q\<rfloor> else \<lceil>q\<rceil>)"

definition as_int :: "number option \<Rightarrow> int" where
  \<comment> \<open>\<^verbatim>\<open>.fillna(0).astype(int)\<close>\<close>
  "as_int n = (case n of None \<Rightarrow> 0 | Some (NInt i) \<Rightarrow> i | Some (NFloat q) \<Rightarrow> trunc q)"

definition as_float :: "number option \<Rightarrow> rat" where
  \<comment> \<open>\<^verbatim>\<open>.fillna(0.0).astype(float)\<close>\<close>
  "as_float n = (case n of None \<Rightarrow> 0 | Some (NInt i) \<Rightarrow> of_int i | Some (NFloat q) \<Rightarrow> q)"

definition round_half_even :: "rat \<Rightarrow> int" where
  "round_half_even x =
     (let f = \<lfloor>x\<rfloor>; d = x - of_int f
      in if d < 1 / 2 then f else if 1 / 2 < d then f + 1 else if even f then f else f + 1)"

definition round2 :: "rat \<Rightarrow> rat" where
  \<comment> \<open>\<^verbatim>\<open>.round(2)\<close>: numpy rounds the value scaled by 100 to the nearest integer, a tie to
      the even one\<close>
  "round2 q = of_int (round_half_even (q * 100)) / 100"

definition add_order_total :: "lib \<Rightarrow> table \<Rightarrow> error + table" where
  \<comment> \<open>\<^verbatim>\<open>df.get('qty', 0)\<close> is the scalar 0 when the column is absent; \<^verbatim>\<open>pd.to_numeric\<close>
      returns a scalar as it is, and the call of \<^verbatim>\<open>.fillna\<close> on it raises AttributeError.
      When the column is doubled, \<^verbatim>\<open>df.get\<close> is a DataFrame and \<^verbatim>\<open>pd.to_numeric\<close> raises
      TypeError.\<close>
  "add_order_total L df_orders =
     (let (df1, dup_qty) = normalize_name ''qty'' [''qty''] df_orders;
          (df2, dup_price) =
             normalize_name ''unit_price'' [''unitprice'', ''unit_price'', ''price''] df1
      in if dup_qty then Inl (TypeError ''arg must be a list, tuple, 1-d array, or Series'')
         else if ''qty'' \<notin> set (columns df2) then Inl (AttributeError ''fillna'')
         else
           let df3 = set_column ''qty''
                       (map (\<lambda>v. Some (IntV (as_int (to_numeric L v)))) (column df2 ''qty'')) df2
           in if dup_price
              then Inl (TypeError ''arg must be a list, tuple, 1-d array, or Series'')
              else if ''unit_price'' \<notin> set (columns df3) then Inl (AttributeError ''fillna'')
              else
                let df4 = set_column ''unit_price''
                            (map (\<lambda>v. Some (FloatV (as_float (to_numeric L v))))
                               (column df3 ''unit_price'')) df3
                in Inr (set_column ''order_total''
                          (map (\<lambda>r. case (r ''qty'', r ''unit_price'') of
                                       (Some (IntV q), Some (FloatV u)) \<Rightarrow>
                                         Some (FloatV (round2 (of_int q * u)))
                                     | _ \<Rightarrow> None) (records df4)) df4))"

definition number_value :: "number \<Rightarrow> rat" where
  "number_value n = (case n of NInt i \<Rightarrow> of_int i | NFloat q \<Rightarrow> q)"

definition is_int :: "number option \<Rightarrow> bool" where
  "is_int n = (case n of Some (NInt i) \<Rightarrow> True | _ \<Rightarrow> False)"

definition numeric_column :: "number option list \<Rightarrow> val list" where
  \<comment> \<open>the Series \<^verbatim>\<open>pd.to_numeric\<close> returns: int64 when every value is an integer, float64
      (NaN for a missing value) otherwise\<close>
  "numeric_column ns =
     (if list_all is_int ns then map (\<lambda>n. Some (IntV (as_int n))) ns
      else map (map_option (\<lambda>n. FloatV (number_value n))) ns)"

definition product_columns :: "string list" where
  "product_columns = [''product_name'', ''category'', ''product_price'']"

definition select_columns :: "string list \<Rightarrow> table \<Rightarrow> table" where
  \<comment> \<open>\<^verbatim>\<open>df[[c1, ..., cn]]\<close> for columns that are present\<close>
  "select_columns cs df =
     \<lparr>columns = cs, records = map (\<lambda>r c. if c \<in> set cs then r c else None) (records df)\<rparr>"

definition merge_row :: "string list \<Rightarrow> row \<Rightarrow> row option \<Rightarrow> row" where
  \<comment> \<open>one row of the merge: the order's cells, then the cells of the matching product
      (NaN when there is none). A column name on both sides, other than the key, gets
      the suffixes \<^verbatim>\<open>_x\<close> (orders) and \<^verbatim>\<open>_y\<close> (products); a suffixed name that meets
      the name of another column is outside the model.\<close>
  "merge_row overlap l p =
     (let l' = fold (\<lambda>c r. (r(c := None))(c @ ''_x'' := l c)) overlap l
      in fold (\<lambda>c r. r((if c \<in> set overlap then c @ ''_y'' else c) :=
                         (case p of None \<Rightarrow> None | Some pr \<Rightarrow> pr c)))
           product_columns l')"

definition merge_left_m1 ::
  "table \<Rightarrow> rat option list \<Rightarrow> table \<Rightarrow> rat option list \<Rightarrow> error + table" where
  \<comment> \<open>\<^verbatim>\<open>left.merge(right, on='product_id', how='left', validate='m:1')\<close>, given the key of
      every row of both sides. The rows of the result are those of \<open>left\<close>, in its order;
      missing keys match each other, as pandas has it; \<^verbatim>\<open>validate\<close> wants the keys of
      \<open>right\<close> distinct.\<close>
  "merge_left_m1 left lkeys right rkeys =
     (if \<not> distinct rkeys
      then Inl (MergeError ''Merge keys are not unique in right dataset; not a many-to-one merge'')
      else
        let overlap = filter (\<lambda>c. c \<in> set (columns left)) product_columns
        in Inr \<lparr>columns = map (\<lambda>c. if c \<in> set overlap then c @ ''_x'' else c) (columns left)
                          @ map (\<lambda>c. if c \<in> set overlap then c @ ''_y'' else c) product_columns,
                records = map (\<lambda>(k, l). merge_row overlap l (map_of (zip rkeys (records right)) k))
                            (zip lkeys (records left))\<rparr>)"

definition fillna :: "string \<Rightarrow> cell \<Rightarrow> table \<Rightarrow> table" where
  \<comment> \<open>\<^verbatim>\<open>df[c] = df[c].fillna(v)\<close>\<close>
  "fillna c v df =
     df\<lparr>records := map (\<lambda>r. r(c := (case r c of None \<Rightarrow> Some v | Some w \<Rightarrow> Some w)))
                       (records df)\<rparr>"

definition enrich_with_products :: "lib \<Rightarrow> table \<Rightarrow> table \<Rightarrow> error + table" where
  \<comment> \<open>with the default \<^verbatim>\<open>how='left'\<close>, which is how the pipeline and the tests call it\<close>
  "enrich_with_products L df_orders df_products =
     (if ''product_id'' \<notin> set (columns df_orders) then Inl (KeyError ''product_id'')
      else if ''product_id'' \<notin> set (columns df_products) then Inl (KeyError ''product_id'')
      else
        let lnums = map (to_numeric L) (column df_orders ''product_id'');
            rnums = map (to_numeric L) (column df_products ''product_id'');
            left = set_column ''product_id'' (numeric_column lnums) df_orders;
            right = set_column ''product_id'' (numeric_column rnums) df_products
        in case filter (\<lambda>c. c \<notin> set (columns right)) [''product_name'', ''category'', ''price''] of
             c # _ \<Rightarrow> Inl (KeyError c)
           | [] \<Rightarrow>
               (case merge_left_m1 left (map (map_option number_value) lnums)
                       (rename_column ''price'' ''product_price''
                          (select_columns [''product_id'', ''product_name'', ''category'', ''price'']
                             right))
                       (map (map_option number_value) rnums) of
                  Inl e \<Rightarrow> Inl e
                | Inr enriched \<Rightarrow>
                    let e1 = (if ''product_name'' \<in> set (columns enriched)
                              then fillna ''product_name'' (StrV ''unknown_product'') enriched
                              else enriched);
                        e2 = (if ''category'' \<in> set (columns e1)
                              then fillna ''category'' (StrV ''unknown_category'') e1
                              else e1)
                    in Inr e2))"

definition digit :: "nat \<Rightarrow> char" where
  "digit n = ''0123456789'' ! (n mod 10)"

definition strftime_iso :: "timestamp \<Rightarrow> string" where
  \<comment> \<open>\<^verbatim>\<open>strftime('%Y-%m-%d')\<close>: the year on four digits (a pandas timestamp lies between
      the years 1677 and 2262), month and day on two\<close>
  "strftime_iso t =
     [digit (ts_year t div 1000), digit (ts_year t div 100), digit (ts_year t div 10),
      digit (ts_year t)] @ ''-'' @ [digit (ts_month t div 10), digit (ts_month t)] @ ''-''
       @ [digit (ts_day t div 10), digit (ts_day t)]"

definition is_datetime :: "val list \<Rightarrow> bool" where
  \<comment> \<open>\<^verbatim>\<open>is_datetime64_any_dtype\<close>: a column of timestamps and NaT\<close>
  "is_datetime col = list_all (\<lambda>v. case v of None \<Rightarrow> True | Some (DateV t) \<Rightarrow> True | _ \<Rightarrow> False) col"

definition add_order_date_iso :: "lib \<Rightarrow> table \<Rightarrow> string \<Rightarrow> string \<Rightarrow> error + table" where
  "add_order_date_iso L df_orders date_col out_col =
     (if date_col \<notin> set (columns df_orders) then Inl (KeyError date_col)
      else
        let df = (if \<not> is_datetime (column df_orders date_col)
                  then set_column date_col (to_datetime L None (column df_orders date_col)) df_orders
                  else df_orders)
        in Inr (set_column out_col
                  (map (\<lambda>v. case v of Some (DateV t) \<Rightarrow> Some (StrV (strftime_iso t)) | _ \<Rightarrow> None)
                     (column df date_col)) df))"

definition round_column :: "string \<Rightarrow> table \<Rightarrow> table" where
  \<comment> \<open>\<^verbatim>\<open>df[c] = df[c].round(2)\<close> on a column of sums\<close>
  "round_column c df =
     df\<lparr>records := map (\<lambda>r. r(c := (case r c of Some (FloatV q) \<Rightarrow> Some (FloatV (round2 q))
                                              | v \<Rightarrow> v))) (records df)\<rparr>"

definition compute_daily_category_revenue :: "lib \<Rightarrow> table \<Rightarrow> error + table" where
  "compute_daily_category_revenue L df_enriched =
     (case (if ''order_total'' \<notin> set (columns df_enriched) then add_order_total L df_enriched
            else Inr df_enriched) of
        Inl e \<Rightarrow> Inl e
      | Inr df1 \<Rightarrow>
          (case (if ''order_date_iso'' \<notin> set (columns df1)
                 then add_order_date_iso L df1 ''order_date'' ''order_date_iso''
                 else Inr df1) of
             Inl e \<Rightarrow> Inl e
           | Inr df \<Rightarrow>
               (case groupby_sum L [''order_date_iso'', ''category''] df of
                  Inl e \<Rightarrow> Inl e
                | Inr agg \<Rightarrow> Inr (round_column ''total_revenue'' agg))))"

definition head :: "int \<Rightarrow> table \<Rightarrow> table" where
  \<comment> \<open>\<^verbatim>\<open>df.head(n)\<close>: the first \<open>n\<close> rows, all but the last \<open>-n\<close> for a negative \<open>n\<close>\<close>
  "head n df =
     df\<lparr>records := (if 0 \<le> n then take (nat n) (records df)
                     else take (length (records df) - nat (- n)) (records df))\<rparr>"

definition top_n_products_by_revenue :: "lib \<Rightarrow> table \<Rightarrow> int \<Rightarrow> error + table" where
  "top_n_products_by_revenue L df_enriched n =
     (case (if ''order_total'' \<notin> set (columns df_enriched) then add_order_total L df_enriched
            else Inr df_enriched) of
        Inl e \<Rightarrow> Inl e
      | Inr df \<Rightarrow>
          (case groupby_sum L [''product_id'', ''product_name'', ''category''] df of
             Inl e \<Rightarrow> Inl e
           | Inr agg \<Rightarrow>
               Inr (round_column ''total_revenue''
                      (head n (sort_values_desc L ''total_revenue'' agg)))))"

section \<open>writers.py\<close>

text \<open>
  The output side of the file system: the regular files, by path, and the directories.
  A path is the list of its components. Failures of the operating system (a full disk,
  missing permissions, a file where a directory is wanted) are outside the model, and so
  is the scratch directory \<^verbatim>\<open>write_parquet_partition\<close> makes under the system's temporary
  directory and removes again.
\<close>

type_synonym path = "string list"

datatype content = Parquet table | Json "(string \<times> val) list" | Csv table

record fs =
  files :: "path \<Rightarrow> content option"
  dirs :: "path set"

definition mkdir :: "path \<Rightarrow> fs \<Rightarrow> fs" where
  \<comment> \<open>\<^verbatim>\<open>p.mkdir(parents=True, exist_ok=True)\<close>\<close>
  "mkdir p s = s\<lparr>dirs := dirs s \<union> set (map (\<lambda>n. take n p) [1..<Suc (length p)])\<rparr>"

definition write_file :: "path \<Rightarrow> content \<Rightarrow> fs \<Rightarrow> fs" where
  "write_file p c s = s\<lparr>files := (files s)(p := Some c)\<rparr>"

definition replace :: "path \<Rightarrow> path \<Rightarrow> fs \<Rightarrow> fs" where
  \<comment> \<open>\<^verbatim>\<open>os.replace(src, dst)\<close>\<close>
  "replace src dst s = s\<lparr>files := ((files s)(dst := files s src))(src := None)\<rparr>"

definition py_str :: "lib \<Rightarrow> val \<Rightarrow> string" where
  \<comment> \<open>\<^verbatim>\<open>str(v)\<close>, as an f-string applies it\<close>
  "py_str L v = (case v of None \<Rightarrow> ''nan'' | Some (StrV s) \<Rightarrow> s | Some c \<Rightarrow> str_of L c)"

definition write_parquet_partition :: "table \<Rightarrow> string \<Rightarrow> path \<Rightarrow> fs \<Rightarrow> path \<times> fs" where
  \<comment> \<open>the file is written in the scratch directory and moved to its place by
      \<^verbatim>\<open>_atomic_write_file\<close>, which makes the parent directory and calls \<^verbatim>\<open>os.replace\<close>; with
      the scratch directory outside the model, this writes the file in place\<close>
  "write_parquet_partition df partition_value output_dir s =
     (let outdir = output_dir @ [''date='' @ partition_value];
          final_file = outdir @ [''data.parquet'']
      in (final_file, write_file final_file (Parquet df) (mkdir (butlast final_file) (mkdir outdir s))))"

definition write_summary_json :: "lib \<Rightarrow> (string \<times> val) list \<Rightarrow> path \<Rightarrow> fs \<Rightarrow> path \<times> fs" where
  "write_summary_json L summary output_dir s =
     (let outdir = output_dir;
          s1 = mkdir outdir s;
          filename = ''summary_''
                       @ (case map_of summary ''date'' of None \<Rightarrow> ''run'' | Some v \<Rightarrow> py_str L v)
                       @ ''.json'';
          tmp = outdir @ [filename @ ''.tmp''];
          final = outdir @ [filename]
      in (final, replace tmp final (write_file tmp (Json summary) s1)))"

definition write_bad_rows_csv :: "table option \<Rightarrow> string \<Rightarrow> path \<Rightarrow> fs \<Rightarrow> path option \<times> fs" where
  "write_bad_rows_csv bad_df name output_dir s =
     (let outdir = output_dir;
          s1 = mkdir outdir s
      in case bad_df of
           None \<Rightarrow> (None, s1)
         | Some b \<Rightarrow>
             if empty b then (None, s1)
             else
               let target = outdir @ [name @ ''.csv''];
                   tmp = outdir @ [''.'' @ name @ ''.csv.tmp'']
               in (Some target, replace tmp target (write_file tmp (Csv b) s1)))"

section \<open>readers.py: the files of the data directory\<close>

text \<open>
  The data directory is the list of its entries in the order \<^verbatim>\<open>iterdir()\<close> yields them.
  A regular file is given by the table \<^verbatim>\<open>pd.read_csv\<close> reads from it. The directory is
  the one \<^verbatim>\<open>resolve_data_dir\<close> or the caller's \<^verbatim>\<open>data_dir\<close> names; finding it is not
  modelled.
\<close>

datatype dir_entry = File table | Directory

type_synonym data_dir = "(string \<times> dir_entry) list"

fun contains :: "string \<Rightarrow> string \<Rightarrow> bool" where
  \<comment> \<open>\<^verbatim>\<open>sub in s\<close>\<close>
  "contains sub [] = (sub = [])"
| "contains sub (c # cs) = (take (length sub) (c # cs) = sub \<or> contains sub cs)"

definition read_products :: "data_dir \<Rightarrow> error + (table \<times> table)" where
  "read_products base =
     (case map_of base ''products.csv'' of
        None \<Rightarrow> Inl (FileNotFoundError ''products.csv'')
      | Some Directory \<Rightarrow> Inl (IsADirectoryError ''products.csv'')
      | Some (File df) \<Rightarrow> Inr (df, \<lparr>columns = [], records = []\<rparr>))"

definition candidates :: "string \<Rightarrow> data_dir \<Rightarrow> table list" where
  "candidates date_str base =
     concat (map (\<lambda>(name, f). case f of
                                 File df \<Rightarrow> if contains date_str name \<and> contains ''order'' (lower name)
                                            then [df] else []
                               | Directory \<Rightarrow> []) base)"

definition read_orders_for_date :: "lib \<Rightarrow> string \<Rightarrow> data_dir \<Rightarrow> error + (table \<times> table)" where
  "read_orders_for_date L date_str base =
     (case candidates date_str base of
        [] \<Rightarrow> Inl (FileNotFoundError date_str)
      | df # _ \<Rightarrow> parse_date_column L df ''order_date'' (Some ''%Y-%m-%d''))"

section \<open>cli.py\<close>

record summary =
  date :: string
  rows :: nat
  revenue :: rat
  bad_rows :: nat
  parquet_path :: "path option"

datatype run_error = Raised error | IndexError

definition combine_bad :: "table \<Rightarrow> table \<Rightarrow> table option" where
  \<comment> \<open>\<^verbatim>\<open>bad_rows_combined\<close> and \<^verbatim>\<open>bad_orders_df\<close>\<close>
  "combine_bad orders_parsed_bad orders_valid_bad =
     (let bad_rows_combined =
            (if \<not> empty orders_parsed_bad then [orders_parsed_bad] else [])
              @ (if \<not> empty orders_valid_bad then [orders_valid_bad] else [])
      in if bad_rows_combined \<noteq> [] then Some (concat_tables bad_rows_combined) else None)"

definition column_sum :: "string \<Rightarrow> table \<Rightarrow> rat" where
  \<comment> \<open>\<^verbatim>\<open>df[c].sum()\<close> on a numeric column: missing values are skipped\<close>
  "column_sum c df =
     sum_list (map (\<lambda>r. case r c of Some (FloatV q) \<Rightarrow> q | Some (IntV i) \<Rightarrow> of_int i | _ \<Rightarrow> 0)
                 (records df))"

definition flush_bad :: "table option \<Rightarrow> string \<Rightarrow> path \<Rightarrow> bool \<Rightarrow> fs \<Rightarrow> fs" where
  \<comment> \<open>\<^verbatim>\<open>if bad_orders_df is not None and not bad_orders_df.empty [and not dry_run]:
      write_bad_rows_csv(...)\<close>\<close>
  "flush_bad bad_orders_df date_str out_base dry_run s =
     (case bad_orders_df of
        None \<Rightarrow> s
      | Some b \<Rightarrow>
          if \<not> empty b \<and> \<not> dry_run
          then snd (write_bad_rows_csv (Some b) (''orders-'' @ date_str @ ''-bad'')
                      (out_base @ [''bad_rows'']) s)
          else s)"

definition transform :: "lib \<Rightarrow> table \<Rightarrow> table \<Rightarrow> error + table" where
  \<comment> \<open>steps 5 to 7 of \<^verbatim>\<open>run_for_date\<close>; an exception of one step ends the call\<close>
  "transform L orders_valid products_df =
     (case add_order_total L orders_valid of
        Inl e \<Rightarrow> Inl e
      | Inr e1 \<Rightarrow>
          (case enrich_with_products L e1 products_df of
             Inl e \<Rightarrow> Inl e
           | Inr e2 \<Rightarrow> add_order_date_iso L e2 ''order_date'' ''order_date_iso''))"

definition run_for_date ::
  "lib \<Rightarrow> schema \<Rightarrow> string \<Rightarrow> data_dir \<Rightarrow> path \<Rightarrow> bool \<Rightarrow> fs \<Rightarrow> (run_error + summary) \<times> fs" where
  \<comment> \<open>\<open>data_path\<close> and \<open>out_base\<close> are the resolved directories; the result is what the call
      returns or raises, with the file system it leaves\<close>
  "run_for_date L OrderSchema date_str data_path out_base dry_run s =
     (case read_products data_path of
        Inl e \<Rightarrow> (Inl (Raised e), s)
      | Inr (products_df, products_bad) \<Rightarrow>
          (let s1 = (if \<not> empty products_bad \<and> \<not> dry_run
                     then snd (write_bad_rows_csv (Some products_bad) ''products-bad''
                                 (out_base @ [''bad_rows'']) s)
                     else s)
           in (case read_orders_for_date L date_str data_path of
                 Inl e \<Rightarrow> (Inl (Raised e), s1)
               | Inr (orders_parsed_good, orders_parsed_bad) \<Rightarrow>
                   (let (orders_valid, orders_valid_bad) =
                          validate_dataframe orders_parsed_good OrderSchema;
                        bad_orders_df = combine_bad orders_parsed_bad orders_valid_bad;
                        n_bad = (case bad_orders_df of None \<Rightarrow> 0 | Some b \<Rightarrow> length (records b))
                    in if empty orders_valid
                       then (Inr \<lparr>date = date_str, rows = 0, revenue = 0, bad_rows = n_bad,
                                  parquet_path = None\<rparr>,
                             flush_bad bad_orders_df date_str out_base dry_run s1)
                       else
                         (case transform L orders_valid products_df of
                            Inl e \<Rightarrow> (Inl (Raised e), s1)
                          | Inr enriched \<Rightarrow>
                              (let total_revenue =
                                     (if ''order_total'' \<in> set (columns enriched)
                                      then round2 (column_sum ''order_total'' enriched) else 0);
                                   rows_processed = length (records enriched)
                               in if \<not> dry_run
                                  then
                                    (case records enriched of
                                       [] \<Rightarrow> (Inl IndexError, s1)
                                     | r0 # rest \<Rightarrow>
                                         (let partition_value = r0 ''order_date_iso'';
                                              (parquet_path, s2) =
                                                 write_parquet_partition enriched
                                                   (py_str L partition_value)
                                                   (out_base @ [''processed'']) s1;
                                              summary_obj =
                                                 [(''date'', partition_value),
                                                  (''rows'', Some (IntV (int rows_processed))),
                                                  (''revenue'', Some (FloatV total_revenue))];
                                              s3 = snd (write_summary_json L summary_obj
                                                          (out_base @ [''summaries'']) s2);
                                              s4 = flush_bad bad_orders_df date_str out_base
                                                     False s3
                                          in (Inr \<lparr>date = date_str, rows = rows_processed,
                                                    revenue = total_revenue, bad_rows = n_bad,
                                                    parquet_path = Some parquet_path\<rparr>, s4)))
                                  else (Inr \<lparr>date = date_str, rows = rows_processed,
                                             revenue = total_revenue, bad_rows = n_bad,
                                             parquet_path = None\<rparr>, s1)))))))"

section \<open>Notions used in the statements\<close>

text \<open>
  The strict and the permissive parse of \<^verbatim>\<open>parse_date_column\<close>, row by row: the value
  the strict call of \<^verbatim>\<open>pd.to_datetime\<close> gives for the row's cell, the rows it fails on
  (carrying the first error text, as \<^verbatim>\<open>bad_df\<close> does), and the value the second call gives
  on such a row.
\<close>

definition strict_parse :: "lib \<Rightarrow> table \<Rightarrow> string \<Rightarrow> string option \<Rightarrow> row \<Rightarrow> val" where
  "strict_parse L df c fmt r =
     convert_datetime L (if truthy fmt then fmt else None) (column df c) (r c)"

definition strict_failures :: "lib \<Rightarrow> table \<Rightarrow> string \<Rightarrow> string option \<Rightarrow> row list" where
  "strict_failures L df c fmt =
     map (\<lambda>r. r(''_parse_error'' := Some (StrV (strict_error c fmt))))
       (filter (\<lambda>r. strict_parse L df c fmt r = None) (records df))"

definition flexible_parse :: "lib \<Rightarrow> table \<Rightarrow> string \<Rightarrow> string option \<Rightarrow> row \<Rightarrow> val" where
  "flexible_parse L df c fmt r =
     convert_datetime L None (map (\<lambda>b. b c) (strict_failures L df c fmt)) (r c)"

definition join_key :: "lib \<Rightarrow> row \<Rightarrow> rat option" where
  "join_key L r = map_option number_value (to_numeric L (r ''product_id''))"

definition fill_missing :: "string \<Rightarrow> val \<Rightarrow> val" where
  "fill_missing d v = (case v of None \<Rightarrow> Some (StrV d) | Some w \<Rightarrow> Some w)"

section \<open>Sample inputs\<close>

text \<open>
  A library instance, a schema and tables for the worked examples. The instance reads no
  text as a number, reads one date in the strict format and one more in the permissive
  parse, and leaves the order of rows alone when asked to sort; the schema has the
  constraint of \<^verbatim>\<open>OrderSchema\<close> on \<^verbatim>\<open>qty\<close>.
\<close>

definition sample_groupby_sum :: "string list \<Rightarrow> table \<Rightarrow> error + table" where
  \<comment> \<open>a grouping for the examples: one row per combination of key values, in order of
      first appearance (pandas sorts the groups), with the two sums\<close>
  "sample_groupby_sum keys df =
     (case filter (\<lambda>c. c \<notin> set (columns df)) (keys @ [''order_total'', ''qty'']) of
        c # cs \<Rightarrow> Inl (KeyError c)
      | [] \<Rightarrow>
          Inr \<lparr>columns = keys @ [''total_revenue'', ''total_units''],
               records =
                 map (\<lambda>g. (\<lambda>c. case map_of (zip keys g) c of None \<Rightarrow> None | Some v \<Rightarrow> v)
                        (''total_revenue'' := Some (FloatV (column_sum ''order_total''
                            (mask_rows (map (\<lambda>r. map r keys = g) (records df)) df))),
                         ''total_units'' := Some (FloatV (column_sum ''qty''
                            (mask_rows (map (\<lambda>r. map r keys = g) (records df)) df)))))
                   (remdups (map (\<lambda>r. map r keys) (records df)))\<rparr>)"

definition example_lib :: lib where
  "example_lib =
     \<lparr>parse_number = (\<lambda>c. None),
      parse_datetime = (\<lambda>fmt col c.
         if c = StrV ''2025-10-25'' \<or> (fmt = None \<and> c = StrV ''25 Oct 2025'')
         then Some \<lparr>ts_year = 2025, ts_month = 10, ts_day = 25, ts_nanos = 0\<rparr> else None),
      str_of = (\<lambda>c. ''?''),
      groupby_sum = sample_groupby_sum,
      sort_values_desc = (\<lambda>c df. df)\<rparr>"

definition order_row :: "int \<Rightarrow> string \<Rightarrow> int \<Rightarrow> int \<Rightarrow> rat \<Rightarrow> row" where
  "order_row oid d pid q u =
     (\<lambda>c. None)(''order_id'' := Some (IntV oid), ''order_date'' := Some (StrV d),
       ''product_id'' := Some (IntV pid), ''qty'' := Some (IntV q), ''unit_price'' := Some (FloatV u))"

definition example_orders :: table where
  "example_orders =
     \<lparr>columns = [''order_id'', ''order_date'', ''product_id'', ''qty'', ''unit_price''],
      records = [order_row 1 ''25 Oct 2025'' 1001 2 10, order_row 2 ''2025-10-25'' 1002 1 (5 / 2),
                 order_row 3 ''soon'' 1001 1 1]\<rparr>"

definition qty_schema :: schema where
  "qty_schema r =
     (case r ''qty'' of
        Some (IntV q) \<Rightarrow> if q < 0 then Some ''qty: ensure this value is greater than or equal to 0''
                         else None
      | _ \<Rightarrow> Some ''qty: value is not a valid integer'')"

definition raw_orders :: table where
  "raw_orders =
     \<lparr>columns = [''order_id'', ''qty'', ''unit_price''],
      records = [(\<lambda>c. None)(''order_id'' := Some (IntV 1), ''qty'' := Some (StrV ''two''),
                    ''unit_price'' := Some (FloatV (1999 / 100))),
                 (\<lambda>c. None)(''order_id'' := Some (IntV 2), ''qty'' := Some (IntV 2),
                    ''unit_price'' := Some (FloatV 10))]\<rparr>"

definition priced_rows :: table where
  "priced_rows =
     \<lparr>columns = [''order_id'', ''unit_price''],
      records = [(\<lambda>c. None)(''order_id'' := Some (IntV 1), ''unit_price'' := Some (FloatV 10))]\<rparr>"

definition example_products :: table where
  "example_products =
     \<lparr>columns = [''product_id'', ''product_name'', ''category'', ''price''],
      records = [(\<lambda>c. None)(''product_id'' := Some (IntV 1001),
                    ''product_name'' := Some (StrV ''Classic Tee''),
                    ''category'' := Some (StrV ''Apparel''),
                    ''price'' := Some (FloatV (1999 / 100)))]\<rparr>"

definition enriched_sample :: table where
  "enriched_sample =
     \<lparr>columns = [''product_id'', ''product_name'', ''category'', ''qty'', ''unit_price'',
                 ''order_total'', ''order_date_iso''],
      records = [(\<lambda>c. None)(''product_id'' := Some (IntV 1001),
                    ''product_name'' := Some (StrV ''Classic Tee''),
                    ''category'' := Some (StrV ''Apparel''),
                    ''qty'' := Some (IntV 1), ''unit_price'' := Some (FloatV 1),
                    ''order_total'' := Some (FloatV 99),
                    ''order_date_iso'' := Some (StrV ''2025-10-25''))]\<rparr>"

definition empty_fs :: fs where
  "empty_fs = \<lparr>files = Map.empty, dirs = {}\<rparr>"

definition failing_orders :: table where
  "failing_orders =
     \<lparr>columns = [''order_id'', ''order_date'', ''product_id'', ''qty'', ''unit_price''],
      records = [order_row 4 ''soon'' 1001 1 1, order_row 5 ''2025-10-25'' 1001 (- 1) 1]\<rparr>"

definition failing_dir :: data_dir where
  "failing_dir = [(''products.csv'', File example_products),
                  (''orders_20251025.csv'', File failing_orders)]"

definition example_dir :: data_dir where
  "example_dir = [(''products.csv'', File example_products),
                  (''orders_20251025.csv'', File example_orders)]"

section \<open>DataFrame primitives: basic facts\<close>

lemma select_map_filter: "select (map P xs) (map f xs) = map f (filter P xs)"
  by (induction xs) (auto simp: select_def)

lemma select_map_filter_id: "select (map P xs) xs = filter P xs"
  using select_map_filter [of P xs id] by simp

lemma select_isna:
  "select (map isna (map f xs)) xs = filter (\<lambda>x. f x = None) xs"
  "select (map Not (map isna (map f xs))) xs = filter (\<lambda>x. f x \<noteq> None) xs"
  "select (map Not (map isna (map f xs))) (map f xs) = map f (filter (\<lambda>x. f x \<noteq> None) xs)"
  using select_map_filter_id [of "\<lambda>x. f x = None" xs]
    select_map_filter_id [of "\<lambda>x. f x \<noteq> None" xs]
    select_map_filter [of "\<lambda>x. f x \<noteq> None" xs f]
  by (simp_all add: isna_def o_def)

lemma mask_rows_simps [simp]:
  "columns (mask_rows m df) = columns df"
  "records (mask_rows m df) = select m (records df)"
  by (simp_all add: mask_rows_def)

lemma add_column_simps [simp]:
  "add_column c cs \<noteq> []"
  "set (add_column c cs) = insert c (set cs)"
  by (auto simp: add_column_def)

lemma set_column_const_simps [simp]:
  "columns (set_column_const c v df) = add_column c (columns df)"
  "records (set_column_const c v df) = map (\<lambda>r. r(c := v)) (records df)"
  by (simp_all add: set_column_const_def)

lemma set_column_simps [simp]:
  "columns (set_column c vs df) = add_column c (columns df)"
  by (simp_all add: set_column_def)

lemma records_set_column_same:
  "records df = xs \<Longrightarrow> records (set_column c (map f xs) df) = map (\<lambda>r. r(c := f r)) xs"
  by (simp add: set_column_def zip_map2 zip_same_conv_map)

lemma records_concat2 [simp]:
  "records (concat_tables [a, b]) = records a @ records b"
  by (simp add: Let_def)

section \<open>The date parser and the validator\<close>

lemma parse_date_column_records:
  assumes "c \<in> set (columns df)"
  shows "\<exists>good bad. parse_date_column L df c fmt = Inr (good, bad)
     \<and> records good =
         map (\<lambda>r. r(c := strict_parse L df c fmt r))
           (filter (\<lambda>r. strict_parse L df c fmt r \<noteq> None) (records df))
         @ map (\<lambda>r. r(c := flexible_parse L df c fmt r))
             (filter (\<lambda>r. flexible_parse L df c fmt r \<noteq> None) (strict_failures L df c fmt))
     \<and> records bad =
         map (\<lambda>r. r(''_parse_error'' := Some (StrV ''Flexible parsing also failed'')))
           (filter (\<lambda>r. flexible_parse L df c fmt r = None) (strict_failures L df c fmt))"
proof -
  let ?rows = "records df"
  let ?P = "\<lambda>r. strict_parse L df c fmt r = None"
  let ?B = "strict_failures L df c fmt"
  let ?S = "strict_parse L df c fmt"
  let ?F = "flexible_parse L df c fmt"
  have parsed': "(if truthy fmt then to_datetime L fmt (column df c)
                  else to_datetime L None (column df c)) = map ?S ?rows"
    by (simp add: to_datetime_def strict_parse_def column_def split: if_splits)
  have cols: "columns df \<noteq> []" using assms by auto
  let ?bad0 = "mask_rows (map isna (map ?S ?rows)) df"
  let ?good = "set_column c (select (map Not (map isna (map ?S ?rows))) (map ?S ?rows))
                  (mask_rows (map Not (map isna (map ?S ?rows))) df)"
  have bad0: "records ?bad0 = filter ?P ?rows"
    by (simp add: select_isna del: map_map)
  have good0: "records ?good = map (\<lambda>r. r(c := ?S r)) (filter (\<lambda>r. ?S r \<noteq> None) ?rows)"
    by (rule records_set_column_same [of _ "filter (\<lambda>r. ?S r \<noteq> None) ?rows" c ?S,
          unfolded select_isna(3) [symmetric]])
       (simp add: select_isna del: map_map)
  show ?thesis
  proof (cases "filter ?P ?rows = []")
    case True
    then have B: "?B = []" by (simp add: strict_failures_def)
    have e: "empty ?bad0"
      using bad0 True by (simp add: empty_def del: mask_rows_simps map_map)
    show ?thesis
      unfolding parse_date_column_def Let_def parsed'
      using assms e good0 bad0 True B by (simp del: mask_rows_simps map_map)
  next
    case False
    have e: "\<not> empty ?bad0"
      using bad0 False cols by (simp add: empty_def del: map_map)
    let ?bad_df = "set_column_const ''_parse_error'' (Some (StrV (strict_error c fmt))) ?bad0"
    have bd: "records ?bad_df = ?B"
      using bad0 by (simp add: strict_failures_def del: mask_rows_simps map_map)
    have e2: "\<not> empty ?bad_df"
      using bd False by (simp add: empty_def strict_failures_def del: map_map)
    have fb: "to_datetime L None (column ?bad_df c) = map ?F ?B"
      unfolding to_datetime_def column_def bd flexible_parse_def by simp
    let ?fgood = "set_column c (select (map Not (map isna (map ?F ?B))) (map ?F ?B))
                  (mask_rows (map Not (map isna (map ?F ?B))) ?bad_df)"
    have fg: "records ?fgood = map (\<lambda>r. r(c := ?F r)) (filter (\<lambda>r. ?F r \<noteq> None) ?B)"
      by (rule records_set_column_same [of _ "filter (\<lambda>r. ?F r \<noteq> None) ?B" c ?F,
          unfolded select_isna(3) [symmetric]])
         (simp add: select_isna bd del: map_map set_column_const_simps)
    have fbad: "records (set_column_const ''_parse_error'' (Some (StrV ''Flexible parsing also failed''))
                  (mask_rows (map isna (map ?F ?B)) ?bad_df))
               = map (\<lambda>r. r(''_parse_error'' := Some (StrV ''Flexible parsing also failed'')))
                   (filter (\<lambda>r. ?F r = None) ?B)"
    proof -
      have "records (mask_rows (map isna (map ?F ?B)) ?bad_df) = filter (\<lambda>r. ?F r = None) ?B"
        by (simp only: mask_rows_simps bd select_isna)
      then show ?thesis by (simp only: set_column_const_simps)
    qed
    show ?thesis
      using assms e e2 good0 fg fbad fb
      by (simp add: parse_date_column_def Let_def parsed'
            del: mask_rows_simps set_column_const_simps map_map)
  qed
qed

lemma validate_rows_filter:
  "fst (validate_rows S rs) = filter (\<lambda>r. S r = None) rs"
  "snd (validate_rows S rs) =
     map (\<lambda>r. r(''_error'' := Some (StrV (the (S r))))) (filter (\<lambda>r. S r \<noteq> None) rs)"
  by (induction rs) (auto split: prod.splits option.splits)

lemma records_DataFrame [simp]: "records (DataFrame cs rs) = rs"
  by (simp add: DataFrame_def)

lemma validate_dataframe_records:
  "records (fst (validate_dataframe df S)) = filter (\<lambda>r. S r = None) (records df)"
  "records (snd (validate_dataframe df S)) =
     map (\<lambda>r. r(''_error'' := Some (StrV (the (S r))))) (filter (\<lambda>r. S r \<noteq> None) (records df))"
  using validate_rows_filter [of S "records df"]
  by (cases "validate_rows S (records df)"; simp add: validate_dataframe_def)+

lemma mset_map_filter_split:
  "mset (map f (filter P xs)) + mset (map f (filter (\<lambda>x. \<not> P x) xs)) = mset (map f xs)"
  by (induction xs) auto

lemma example_parse:
  "strict_parse example_lib example_orders ''order_date'' (Some ''%Y-%m-%d'') r =
     (if r ''order_date'' = Some (StrV ''2025-10-25'')
      then Some (DateV \<lparr>ts_year = 2025, ts_month = 10, ts_day = 25, ts_nanos = 0\<rparr>)
      else case r ''order_date'' of Some (DateV t) \<Rightarrow> Some (DateV t) | _ \<Rightarrow> None)"
  "flexible_parse example_lib example_orders ''order_date'' (Some ''%Y-%m-%d'') r =
     (if r ''order_date'' = Some (StrV ''2025-10-25'') \<or> r ''order_date'' = Some (StrV ''25 Oct 2025'')
      then Some (DateV \<lparr>ts_year = 2025, ts_month = 10, ts_day = 25, ts_nanos = 0\<rparr>)
      else case r ''order_date'' of Some (DateV t) \<Rightarrow> Some (DateV t) | _ \<Rightarrow> None)"
  by (auto simp: strict_parse_def flexible_parse_def convert_datetime_def example_lib_def truthy_def
      split: option.splits cell.splits)

text \<open>
  C6. When the designated date column is absent from the table, \<^verbatim>\<open>parse_date_column\<close>
  raises a KeyError: there is no good/bad split and no row is quarantined. So does
  \<^verbatim>\<open>add_order_date_iso\<close> when its date column is absent.
\<close>

theorem missing_date_column_raises:
  "c \<notin> set (columns df) \<Longrightarrow>
     parse_date_column L df c fmt = Inl (KeyError c)
     \<and> add_order_date_iso L df c out = Inl (KeyError c)"
  by (simp add: parse_date_column_def add_order_date_iso_def)

theorem missing_date_column_raises_witness:
  "parse_date_column example_lib example_orders ''shipped'' (Some ''%Y-%m-%d'')
     = Inl (KeyError ''shipped'')
   \<and> add_order_date_iso example_lib example_orders ''shipped'' ''order_date_iso''
     = Inl (KeyError ''shipped'')"
  using missing_date_column_raises [of "''shipped''" example_orders example_lib
      "Some ''%Y-%m-%d''" "''order_date_iso''"]
  by (simp add: example_orders_def)



text \<open>
  C9. The good table of \<^verbatim>\<open>parse_date_column\<close> is the strict successes in input order,
  followed by the rows the permissive parse recovered, in input order. Hence a strict
  success stands before a recovered row in the good table even when it came after that
  row in the input.
\<close>

theorem fallback_rows_follow_strict_rows:
  assumes "c \<in> set (columns df)"
  shows "\<exists>good bad. parse_date_column L df c fmt = Inr (good, bad)
     \<and> records good =
         map (\<lambda>r. r(c := strict_parse L df c fmt r))
           (filter (\<lambda>r. strict_parse L df c fmt r \<noteq> None) (records df))
         @ map (\<lambda>r. r(c := flexible_parse L df c fmt r))
             (filter (\<lambda>r. flexible_parse L df c fmt r \<noteq> None) (strict_failures L df c fmt))
     \<and> (\<forall>i j. i < j \<and> j < length (records df)
            \<and> strict_parse L df c fmt (records df ! i) = None
            \<and> flexible_parse L df c fmt
                 ((records df ! i)(''_parse_error'' := Some (StrV (strict_error c fmt)))) \<noteq> None
            \<and> strict_parse L df c fmt (records df ! j) \<noteq> None
          \<longrightarrow> (\<exists>p q. p < q \<and> q < length (records good)
                 \<and> records good ! p = (records df ! j)(c := strict_parse L df c fmt (records df ! j))
                 \<and> records good ! q =
                     (let b = (records df ! i)(''_parse_error'' := Some (StrV (strict_error c fmt)))
                      in b(c := flexible_parse L df c fmt b))))"
proof -
  let ?S = "strict_parse L df c fmt"
  let ?F = "flexible_parse L df c fmt"
  let ?B = "strict_failures L df c fmt"
  let ?tag = "\<lambda>r::row. r(''_parse_error'' := Some (StrV (strict_error c fmt)))"
  let ?G1 = "map (\<lambda>r. r(c := ?S r)) (filter (\<lambda>r. ?S r \<noteq> None) (records df))"
  let ?G2 = "map (\<lambda>r. r(c := ?F r)) (filter (\<lambda>r. ?F r \<noteq> None) ?B)"
  obtain good bad where p: "parse_date_column L df c fmt = Inr (good, bad)"
    and g: "records good = ?G1 @ ?G2"
    using parse_date_column_records [OF assms] by blast
  have order: "\<exists>p q. p < q \<and> q < length (records good)
                 \<and> records good ! p = (records df ! j)(c := ?S (records df ! j))
                 \<and> records good ! q = (let b = ?tag (records df ! i) in b(c := ?F b))"
    if ij: "i < j" "j < length (records df)" and si: "?S (records df ! i) = None"
      and fi: "?F (?tag (records df ! i)) \<noteq> None" and sj: "?S (records df ! j) \<noteq> None"
    for i j
  proof -
    have "records df ! j \<in> set (filter (\<lambda>r. ?S r \<noteq> None) (records df))"
      using ij sj by simp
    then have "(records df ! j)(c := ?S (records df ! j)) \<in> set ?G1"
      unfolding set_map by (rule imageI)
    then obtain p where p: "p < length ?G1" "?G1 ! p = (records df ! j)(c := ?S (records df ! j))"
      by (meson in_set_conv_nth)
    have "records df ! i \<in> set (filter (\<lambda>r. ?S r = None) (records df))"
      using ij si by simp
    then have "?tag (records df ! i) \<in> set ?B"
      unfolding strict_failures_def by (simp add: image_iff) blast
    then have "?tag (records df ! i) \<in> set (filter (\<lambda>r. ?F r \<noteq> None) ?B)"
      using fi by simp
    then have "(let b = ?tag (records df ! i) in b(c := ?F b)) \<in> set ?G2"
      unfolding Let_def set_map by (rule imageI)
    then obtain q where q: "q < length ?G2"
        "?G2 ! q = (let b = ?tag (records df ! i) in b(c := ?F b))"
      by (meson in_set_conv_nth)
    have "p < length ?G1 + q" using p(1) by simp
    moreover have "length ?G1 + q < length (records good)" unfolding g using q(1) by simp
    moreover have "records good ! p = (records df ! j)(c := ?S (records df ! j))"
      unfolding g using p by (simp add: nth_append)
    moreover have "records good ! (length ?G1 + q) = (let b = ?tag (records df ! i) in b(c := ?F b))"
      unfolding g using q(2) by (simp only: nth_append_length_plus)
    ultimately show ?thesis by blast
  qed
  show ?thesis
    using p g order by blast
qed

theorem fallback_rows_follow_strict_rows_witness:
  "\<exists>good bad. parse_date_column example_lib example_orders ''order_date'' (Some ''%Y-%m-%d'')
       = Inr (good, bad)
     \<and> map (\<lambda>r. r ''order_id'') (records good) = [Some (IntV 2), Some (IntV 1)]
     \<and> (\<exists>p q. p < q \<and> (records good ! p) ''order_id'' = Some (IntV 2)
            \<and> (records good ! q) ''order_id'' = Some (IntV 1))"
proof -
  let ?S = "strict_parse example_lib example_orders ''order_date'' (Some ''%Y-%m-%d'')"
  let ?F = "flexible_parse example_lib example_orders ''order_date'' (Some ''%Y-%m-%d'')"
  have c: "''order_date'' \<in> set (columns example_orders)"
    by (simp add: example_orders_def)
  have r: "records example_orders = [order_row 1 ''25 Oct 2025'' 1001 2 10,
              order_row 2 ''2025-10-25'' 1002 1 (5 / 2), order_row 3 ''soon'' 1001 1 1]"
    by (simp add: example_orders_def)
  have B: "strict_failures example_lib example_orders ''order_date'' (Some ''%Y-%m-%d'') =
             [(order_row 1 ''25 Oct 2025'' 1001 2 10)
                (''_parse_error'' := Some (StrV (strict_error ''order_date'' (Some ''%Y-%m-%d'')))),
              (order_row 3 ''soon'' 1001 1 1)
                (''_parse_error'' := Some (StrV (strict_error ''order_date'' (Some ''%Y-%m-%d''))))]"
    by (simp add: strict_failures_def r example_parse order_row_def)
  obtain good bad where
    p: "parse_date_column example_lib example_orders ''order_date'' (Some ''%Y-%m-%d'')
          = Inr (good, bad)"
    and g: "records good =
         map (\<lambda>r. r(''order_date'' := ?S r)) (filter (\<lambda>r. ?S r \<noteq> None) (records example_orders))
         @ map (\<lambda>r. r(''order_date'' := ?F r)) (filter (\<lambda>r. ?F r \<noteq> None)
               (strict_failures example_lib example_orders ''order_date'' (Some ''%Y-%m-%d'')))"
    and o: "\<forall>i j. i < j \<and> j < length (records example_orders)
            \<and> ?S (records example_orders ! i) = None
            \<and> ?F ((records example_orders ! i)(''_parse_error'' :=
                    Some (StrV (strict_error ''order_date'' (Some ''%Y-%m-%d''))))) \<noteq> None
            \<and> ?S (records example_orders ! j) \<noteq> None
          \<longrightarrow> (\<exists>p q. p < q \<and> q < length (records good)
                 \<and> records good ! p = (records example_orders ! j)
                      (''order_date'' := ?S (records example_orders ! j))
                 \<and> records good ! q =
                     (let b = (records example_orders ! i)(''_parse_error'' :=
                                Some (StrV (strict_error ''order_date'' (Some ''%Y-%m-%d''))))
                      in b(''order_date'' := ?F b)))"
    using fallback_rows_follow_strict_rows [OF c, of example_lib "Some ''%Y-%m-%d''"] by blast
  have ids: "map (\<lambda>r. r ''order_id'') (records good) = [Some (IntV 2), Some (IntV 1)]"
    unfolding g B by (simp add: r example_parse order_row_def)
  have "\<exists>p q. p < q \<and> q < length (records good)
                 \<and> records good ! p = (records example_orders ! 1)
                      (''order_date'' := ?S (records example_orders ! 1))
                 \<and> records good ! q =
                     (let b = (records example_orders ! 0)(''_parse_error'' :=
                                Some (StrV (strict_error ''order_date'' (Some ''%Y-%m-%d''))))
                      in b(''order_date'' := ?F b))"
    using o [rule_format, of 0 1] by (simp add: r example_parse order_row_def)
  then obtain p' q' where "p' < q'"
     "records good ! p' = (records example_orders ! 1)(''order_date'' := ?S (records example_orders ! 1))"
     "records good ! q' = (let b = (records example_orders ! 0)(''_parse_error'' :=
                                Some (StrV (strict_error ''order_date'' (Some ''%Y-%m-%d''))))
                      in b(''order_date'' := ?F b))"
    by blast
  then have "p' < q' \<and> (records good ! p') ''order_id'' = Some (IntV 2)
            \<and> (records good ! q') ''order_id'' = Some (IntV 1)"
    by (simp add: r order_row_def Let_def)
  then have "\<exists>p q. p < q \<and> (records good ! p) ''order_id'' = Some (IntV 2)
            \<and> (records good ! q) ''order_id'' = Some (IntV 1)"
    by (intro exI [of _ p'] exI [of _ q'])
  with p ids show ?thesis
    by (intro exI [of _ good] exI [of _ bad] conjI)
qed

section \<open>transforms.py: totals and the product join\<close>

lemma records_set_column_column:
  "records (set_column c (map f (column df c)) df) = map (\<lambda>r. r(c := f (r c))) (records df)"
  by (simp add: set_column_def column_def zip_map2 zip_same_conv_map o_def)

lemma records_set_column_records:
  "records (set_column c (map g (records df)) df) = map (\<lambda>r. r(c := g r)) (records df)"
  by (simp add: set_column_def zip_map2 zip_same_conv_map)

lemma normalize_name_present:
  "name \<in> set (columns df) \<Longrightarrow> normalize_name name aliases df = (df, False)"
  by (simp add: normalize_name_def)

lemma add_order_total_present:
  assumes "''qty'' \<in> set (columns df)" "''unit_price'' \<in> set (columns df)"
  shows "\<exists>out. add_order_total L df = Inr out
     \<and> columns out = add_column ''order_total'' (columns df)
     \<and> records out =
         map (\<lambda>r. r(''qty'' := Some (IntV (as_int (to_numeric L (r ''qty'')))),
                    ''unit_price'' := Some (FloatV (as_float (to_numeric L (r ''unit_price'')))),
                    ''order_total'' := Some (FloatV (round2
                       (of_int (as_int (to_numeric L (r ''qty'')))
                          * as_float (to_numeric L (r ''unit_price'')))))))
           (records df)"
proof -
  let ?q = "\<lambda>r::row. as_int (to_numeric L (r ''qty''))"
  let ?u = "\<lambda>r::row. as_float (to_numeric L (r ''unit_price''))"
  let ?df3 = "set_column ''qty''
                (map (\<lambda>v. Some (IntV (as_int (to_numeric L v)))) (column df ''qty'')) df"
  let ?df4 = "set_column ''unit_price''
                (map (\<lambda>v. Some (FloatV (as_float (to_numeric L v)))) (column ?df3 ''unit_price''))
                ?df3"
  let ?tot = "\<lambda>r::row. case (r ''qty'', r ''unit_price'') of
                (Some (IntV q), Some (FloatV u)) \<Rightarrow> Some (FloatV (round2 (of_int q * u)))
              | _ \<Rightarrow> None"
  let ?out = "set_column ''order_total'' (map ?tot (records ?df4)) ?df4"
  have r3: "records ?df3 = map (\<lambda>r. r(''qty'' := Some (IntV (?q r)))) (records df)"
    by (rule records_set_column_column)
  have r4: "records ?df4 = map (\<lambda>r. r(''qty'' := Some (IntV (?q r)),
                                     ''unit_price'' := Some (FloatV (?u r)))) (records df)"
  proof -
    have "records ?df4 = map (\<lambda>r. r(''unit_price'' :=
             Some (FloatV (as_float (to_numeric L (r ''unit_price'')))))) (records ?df3)"
      by (rule records_set_column_column)
    then show ?thesis unfolding r3 by simp
  qed
  have r5: "records ?out = map (\<lambda>r. r(''qty'' := Some (IntV (?q r)),
               ''unit_price'' := Some (FloatV (?u r)),
               ''order_total'' := Some (FloatV (round2 (of_int (?q r) * ?u r))))) (records df)"
  proof -
    have "records ?out = map (\<lambda>r. r(''order_total'' := ?tot r)) (records ?df4)"
      by (rule records_set_column_records)
    then show ?thesis unfolding r4 by simp
  qed
  have c: "columns ?out = add_column ''order_total'' (columns df)"
    using assms by (simp add: add_column_def)
  have "add_order_total L df = Inr ?out"
    using assms
    by (simp add: add_order_total_def normalize_name_present Let_def)
  then show ?thesis using r5 c by blast
qed

text \<open>
  The total on a table that has the columns \<^verbatim>\<open>qty\<close> and \<^verbatim>\<open>unit_price\<close>: \<^verbatim>\<open>add_order_total\<close>
  returns a table with an \<^verbatim>\<open>order_total\<close> column and the same number of rows. In every
  row \<^verbatim>\<open>qty\<close> and \<^verbatim>\<open>unit_price\<close> are the input's values coerced to a number, 0 and 0.0 for
  a value that cannot be read as one, and \<^verbatim>\<open>order_total\<close> is their product rounded to two
  decimals; the other columns are unchanged.
\<close>

theorem order_total_computed:
  assumes "''qty'' \<in> set (columns df)" "''unit_price'' \<in> set (columns df)"
  shows "\<exists>out. add_order_total L df = Inr out
     \<and> ''order_total'' \<in> set (columns out)
     \<and> length (records out) = length (records df)
     \<and> (\<forall>i < length (records df).
          let r = records df ! i; out_row = records out ! i;
              q = as_int (to_numeric L (r ''qty''));
              u = as_float (to_numeric L (r ''unit_price''))
          in out_row ''qty'' = Some (IntV q)
             \<and> out_row ''unit_price'' = Some (FloatV u)
             \<and> out_row ''order_total'' = Some (FloatV (round2 (of_int q * u)))
             \<and> (to_numeric L (r ''qty'') = None \<longrightarrow> q = 0)
             \<and> (to_numeric L (r ''unit_price'') = None \<longrightarrow> u = 0)
             \<and> (\<forall>c. c \<notin> {''qty'', ''unit_price'', ''order_total''} \<longrightarrow> out_row c = r c))"
proof -
  obtain out where o: "add_order_total L df = Inr out"
    and c: "columns out = add_column ''order_total'' (columns df)"
    and r: "records out =
         map (\<lambda>r. r(''qty'' := Some (IntV (as_int (to_numeric L (r ''qty'')))),
                    ''unit_price'' := Some (FloatV (as_float (to_numeric L (r ''unit_price'')))),
                    ''order_total'' := Some (FloatV (round2
                       (of_int (as_int (to_numeric L (r ''qty'')))
                          * as_float (to_numeric L (r ''unit_price'')))))))
           (records df)"
    using add_order_total_present [OF assms] by blast
  have "''order_total'' \<in> set (columns out)"
    unfolding c by simp
  moreover have "length (records out) = length (records df)"
    unfolding r by simp
  moreover have "\<forall>i < length (records df).
          let r = records df ! i; out_row = records out ! i;
              q = as_int (to_numeric L (r ''qty''));
              u = as_float (to_numeric L (r ''unit_price''))
          in out_row ''qty'' = Some (IntV q)
             \<and> out_row ''unit_price'' = Some (FloatV u)
             \<and> out_row ''order_total'' = Some (FloatV (round2 (of_int q * u)))
             \<and> (to_numeric L (r ''qty'') = None \<longrightarrow> q = 0)
             \<and> (to_numeric L (r ''unit_price'') = None \<longrightarrow> u = 0)
             \<and> (\<forall>c. c \<notin> {''qty'', ''unit_price'', ''order_total''} \<longrightarrow> out_row c = r c)"
    unfolding r by (simp add: Let_def as_int_def as_float_def)
  ultimately show ?thesis
    using o by (intro exI [of _ out] conjI)
qed

lemma round2_20: "round2 20 = 20" "round2 0 = 0"
  by (simp_all add: round2_def round_half_even_def Let_def)

theorem order_total_computed_witness:
  "''qty'' \<in> set (columns raw_orders) \<and> ''unit_price'' \<in> set (columns raw_orders)
   \<and> (\<exists>out. add_order_total example_lib raw_orders = Inr out
          \<and> length (records out) = 2
          \<and> (records out ! 0) ''qty'' = Some (IntV 0)
          \<and> (records out ! 0) ''order_total'' = Some (FloatV 0)
          \<and> (records out ! 1) ''order_total'' = Some (FloatV 20))"
proof -
  have q: "''qty'' \<in> set (columns raw_orders)" and u: "''unit_price'' \<in> set (columns raw_orders)"
    by (simp_all add: raw_orders_def)
  have n: "to_numeric example_lib (Some (StrV ''two'')) = None"
    "to_numeric example_lib (Some (IntV 2)) = Some (NInt 2)"
    "to_numeric example_lib (Some (FloatV x)) = Some (NFloat x)" for x
    by (simp_all add: to_numeric_def example_lib_def)
  have r: "records raw_orders ! 0 = (\<lambda>c. None)(''order_id'' := Some (IntV 1),
              ''qty'' := Some (StrV ''two''), ''unit_price'' := Some (FloatV (1999 / 100)))"
    "records raw_orders ! Suc 0 = (\<lambda>c. None)(''order_id'' := Some (IntV 2),
              ''qty'' := Some (IntV 2), ''unit_price'' := Some (FloatV 10))"
    "length (records raw_orders) = 2"
    by (simp_all add: raw_orders_def)
  obtain out where o: "add_order_total example_lib raw_orders = Inr out"
    and l: "length (records out) = length (records raw_orders)"
    and a: "\<forall>i < length (records raw_orders).
          let r = records raw_orders ! i; out_row = records out ! i;
              q = as_int (to_numeric example_lib (r ''qty''));
              u = as_float (to_numeric example_lib (r ''unit_price''))
          in out_row ''qty'' = Some (IntV q)
             \<and> out_row ''unit_price'' = Some (FloatV u)
             \<and> out_row ''order_total'' = Some (FloatV (round2 (of_int q * u)))
             \<and> (to_numeric example_lib (r ''qty'') = None \<longrightarrow> q = 0)
             \<and> (to_numeric example_lib (r ''unit_price'') = None \<longrightarrow> u = 0)
             \<and> (\<forall>c. c \<notin> {''qty'', ''unit_price'', ''order_total''} \<longrightarrow> out_row c = r c)"
    using order_total_computed [OF q u, of example_lib] by blast
  have "(records out ! 0) ''qty'' = Some (IntV 0)
          \<and> (records out ! 0) ''order_total'' = Some (FloatV 0)"
    using a [rule_format, of 0] by (simp add: r Let_def n as_int_def as_float_def round2_20)
  moreover have "(records out ! 1) ''order_total'' = Some (FloatV 20)"
    using a [rule_format, of "Suc 0"] by (simp add: r Let_def n as_int_def as_float_def round2_20)
  ultimately show ?thesis
    using q u o l r(3) by auto
qed

lemma add_order_total_without_qty:
  assumes "\<forall>c \<in> set (columns df). lower c \<noteq> ''qty''"
  shows "add_order_total L df = Inl (AttributeError ''fillna'')"
proof -
  have "lower ''qty'' = ''qty''" by (simp add: lower_def lower_char_def)
  then have nq: "''qty'' \<notin> set (columns df)" using assms by auto
  have "filter (\<lambda>c. lower c \<in> set [''qty'']) (columns df) = []"
    using assms by (simp add: filter_empty_conv)
  then have n1: "normalize_name ''qty'' [''qty''] df = (df, False)"
    using nq by (simp add: normalize_name_def)
  obtain df2 d2 where n2: "normalize_name ''unit_price'' [''unitprice'', ''unit_price'', ''price''] df
                             = (df2, d2)"
    by (cases "normalize_name ''unit_price'' [''unitprice'', ''unit_price'', ''price''] df")
  have "''qty'' \<notin> set (columns df2)"
    using n2 nq
    by (auto simp: normalize_name_def rename_column_def split: if_splits list.splits)
  then show ?thesis
    by (simp add: add_order_total_def n1 n2 Let_def)
qed

text \<open>
  C1. \<^verbatim>\<open>add_order_total\<close> does not return a table for every table it is given. For a
  column that is absent it reaches for a default, \<^verbatim>\<open>df.get('qty', 0)\<close>, but the default is
  a scalar: \<^verbatim>\<open>pd.to_numeric\<close> returns it as it is and the call of \<^verbatim>\<open>.fillna\<close> on it raises
  AttributeError. A table of one priced row without a \<^verbatim>\<open>qty\<close> column is rejected whole.
\<close>

theorem add_order_total_rejects_missing_qty:
  "add_order_total example_lib priced_rows = Inl (AttributeError ''fillna'')"
  by (rule add_order_total_without_qty) (simp add: priced_rows_def lower_def lower_char_def)

lemma length_numeric_column [simp]: "length (numeric_column ns) = length ns"
  by (simp add: numeric_column_def)

lemma merge_row_no_overlap:
  "merge_row [] l p =
     l(''product_name'' := (case p of None \<Rightarrow> None | Some pr \<Rightarrow> pr ''product_name''),
       ''category'' := (case p of None \<Rightarrow> None | Some pr \<Rightarrow> pr ''category''),
       ''product_price'' := (case p of None \<Rightarrow> None | Some pr \<Rightarrow> pr ''product_price''))"
  by (simp add: merge_row_def product_columns_def)

lemma enrich_with_products_unfold:
  "enrich_with_products L orders products =
     (if ''product_id'' \<notin> set (columns orders) then Inl (KeyError ''product_id'')
      else if ''product_id'' \<notin> set (columns products) then Inl (KeyError ''product_id'')
      else case filter (\<lambda>c. c \<notin> set (columns products) \<and> c \<noteq> ''product_id'')
                  [''product_name'', ''category'', ''price''] of
             c # cs \<Rightarrow> Inl (KeyError c)
           | [] \<Rightarrow>
               (case merge_left_m1
                       (set_column ''product_id''
                          (numeric_column (map (to_numeric L) (column orders ''product_id''))) orders)
                       (map (join_key L) (records orders))
                       (rename_column ''price'' ''product_price''
                          (select_columns [''product_id'', ''product_name'', ''category'', ''price'']
                             (set_column ''product_id''
                                (numeric_column (map (to_numeric L) (column products ''product_id'')))
                                products)))
                       (map (join_key L) (records products)) of
                  Inl e \<Rightarrow> Inl e
                | Inr enriched \<Rightarrow>
                    Inr (let e1 = (if ''product_name'' \<in> set (columns enriched)
                                   then fillna ''product_name'' (StrV ''unknown_product'') enriched
                                   else enriched)
                         in if ''category'' \<in> set (columns e1)
                            then fillna ''category'' (StrV ''unknown_category'') e1 else e1)))"
proof -
  have lk: "map (map_option number_value) (map (to_numeric L) (column orders ''product_id''))
              = map (join_key L) (records orders)"
    and rk: "map (map_option number_value) (map (to_numeric L) (column products ''product_id''))
              = map (join_key L) (records products)"
    by (simp_all add: column_def join_key_def)
  show ?thesis
    unfolding enrich_with_products_def Let_def lk rk by simp
qed

lemma enrich_with_products_records:
  assumes ok: "enrich_with_products L orders products = Inr out"
    and no: "set product_columns \<inter> set (columns orders) = {}"
  shows "distinct (map (join_key L) (records products))"
    and "\<exists>ls rs. length ls = length (records orders) \<and> length rs = length (records products)
          \<and> (\<forall>i < length (records orders). \<forall>c. c \<noteq> ''product_id'' \<longrightarrow> (ls ! i) c = (records orders ! i) c)
          \<and> (\<forall>j < length (records products).
                (rs ! j) ''product_name'' = (records products ! j) ''product_name''
              \<and> (rs ! j) ''category'' = (records products ! j) ''category''
              \<and> (rs ! j) ''product_price'' = (records products ! j) ''price'')
          \<and> records out =
               map (\<lambda>(k, l). let m = merge_row [] l (map_of (zip (map (join_key L) (records products)) rs) k)
                              in m(''product_name'' := fill_missing ''unknown_product'' (m ''product_name''),
                                   ''category'' := fill_missing ''unknown_category'' (m ''category'')))
                 (zip (map (join_key L) (records orders)) ls)"
proof -
  let ?lnums = "map (to_numeric L) (column orders ''product_id'')"
  let ?rnums = "map (to_numeric L) (column products ''product_id'')"
  let ?left = "set_column ''product_id'' (numeric_column ?lnums) orders"
  let ?right = "set_column ''product_id'' (numeric_column ?rnums) products"
  let ?right' = "rename_column ''price'' ''product_price''
                   (select_columns [''product_id'', ''product_name'', ''category'', ''price''] ?right)"
  let ?M = "merge_left_m1 ?left (map (join_key L) (records orders)) ?right'
              (map (join_key L) (records products))"
  have ov: "filter (\<lambda>c. c \<in> set (columns ?left)) product_columns = []"
    using no by (auto simp: product_columns_def filter_empty_conv)
  from ok have m: "?M \<noteq> Inl e" for e
    unfolding enrich_with_products_unfold
    by (auto split: if_splits list.splits sum.splits)
  show d: "distinct (map (join_key L) (records products))"
  proof (rule ccontr)
    assume "\<not> distinct (map (join_key L) (records products))"
    then have "?M = Inl (MergeError
                 ''Merge keys are not unique in right dataset; not a many-to-one merge'')"
      by (simp add: merge_left_m1_def)
    with m show False by blast
  qed
  let ?merged = "\<lparr>columns = columns ?left @ product_columns,
                  records = map (\<lambda>(k, l). merge_row [] l
                                  (map_of (zip (map (join_key L) (records products)) (records ?right')) k))
                              (zip (map (join_key L) (records orders)) (records ?left))\<rparr>"
  have mm: "?M = Inr ?merged"
    using d by (simp add: merge_left_m1_def ov Let_def del: set_column_simps)
  have out: "out = fillna ''category'' (StrV ''unknown_category'')
                     (fillna ''product_name'' (StrV ''unknown_product'') ?merged)"
    using ok unfolding enrich_with_products_unfold mm
    by (auto simp: Let_def product_columns_def fillna_def split: if_splits list.splits)
  have ll: "length (records ?left) = length (records orders)"
    by (simp add: set_column_def column_def)
  have lr: "length (records ?right') = length (records products)"
    by (simp add: set_column_def column_def rename_column_def select_columns_def)
  have lc: "\<forall>i < length (records orders). \<forall>c. c \<noteq> ''product_id'' \<longrightarrow>
              (records ?left ! i) c = (records orders ! i) c"
    by (simp add: set_column_def column_def)
  have rc: "\<forall>j < length (records products).
                (records ?right' ! j) ''product_name'' = (records products ! j) ''product_name''
              \<and> (records ?right' ! j) ''category'' = (records products ! j) ''category''
              \<and> (records ?right' ! j) ''product_price'' = (records products ! j) ''price''"
    by (simp add: set_column_def column_def rename_column_def select_columns_def)
  have ro: "records out =
               map (\<lambda>(k, l). let m = merge_row [] l (map_of (zip (map (join_key L) (records products)) (records ?right')) k)
                              in m(''product_name'' := fill_missing ''unknown_product'' (m ''product_name''),
                                   ''category'' := fill_missing ''unknown_category'' (m ''category'')))
                 (zip (map (join_key L) (records orders)) (records ?left))"
    unfolding out by (simp add: fillna_def fill_missing_def Let_def split_def fun_upd_twist)
  show "\<exists>ls rs. length ls = length (records orders) \<and> length rs = length (records products)
          \<and> (\<forall>i < length (records orders). \<forall>c. c \<noteq> ''product_id'' \<longrightarrow> (ls ! i) c = (records orders ! i) c)
          \<and> (\<forall>j < length (records products).
                (rs ! j) ''product_name'' = (records products ! j) ''product_name''
              \<and> (rs ! j) ''category'' = (records products ! j) ''category''
              \<and> (rs ! j) ''product_price'' = (records products ! j) ''price'')
          \<and> records out =
               map (\<lambda>(k, l). let m = merge_row [] l (map_of (zip (map (join_key L) (records products)) rs) k)
                              in m(''product_name'' := fill_missing ''unknown_product'' (m ''product_name''),
                                   ''category'' := fill_missing ''unknown_category'' (m ''category'')))
                 (zip (map (join_key L) (records orders)) ls)"
    using ll lr lc rc ro by (intro exI [of _ "records ?left"] exI [of _ "records ?right'"] conjI)
qed


lemma example_join_keys:
  "join_key example_lib (order_row oid d pid q u) = Some (of_int pid)"
  "map (join_key example_lib) (records example_products) = [Some 1001]"
  by (simp_all add: join_key_def to_numeric_def number_value_def order_row_def example_products_def)


section \<open>transforms.py: the aggregation helpers\<close>

text \<open>
  C8. On a table that already has the columns \<^verbatim>\<open>order_total\<close> and \<^verbatim>\<open>order_date_iso\<close>, both
  aggregation helpers group and sum the table as it is given: neither derivation is applied
  again, so the sums are those of the stored \<^verbatim>\<open>order_total\<close> values and no column of the
  table is rewritten before the grouping.
\<close>

theorem aggregations_use_existing_columns:
  assumes "''order_total'' \<in> set (columns df)" "''order_date_iso'' \<in> set (columns df)"
  shows "compute_daily_category_revenue L df =
           map_sum id (round_column ''total_revenue'')
             (groupby_sum L [''order_date_iso'', ''category''] df)
     \<and> top_n_products_by_revenue L df n =
           map_sum id (\<lambda>agg. round_column ''total_revenue''
                                (head n (sort_values_desc L ''total_revenue'' agg)))
             (groupby_sum L [''product_id'', ''product_name'', ''category''] df)"
  using assms
  by (simp add: compute_daily_category_revenue_def top_n_products_by_revenue_def
      split: sum.splits)

lemma round2_99: "round2 99 = 99"
  by (simp add: round2_def round_half_even_def Let_def)

theorem aggregations_use_existing_columns_witness:
  "''order_total'' \<in> set (columns enriched_sample)
   \<and> ''order_date_iso'' \<in> set (columns enriched_sample)
   \<and> (\<exists>agg. compute_daily_category_revenue example_lib enriched_sample = Inr agg
          \<and> map (\<lambda>r. r ''total_revenue'') (records agg) = [Some (FloatV 99)])
   \<and> (\<exists>agg. top_n_products_by_revenue example_lib enriched_sample 10 = Inr agg
          \<and> map (\<lambda>r. r ''total_revenue'') (records agg) = [Some (FloatV 99)])"
proof -
  have a: "''order_total'' \<in> set (columns enriched_sample)"
    and b: "''order_date_iso'' \<in> set (columns enriched_sample)"
    by (simp_all add: enriched_sample_def)
  have g: "groupby_sum example_lib = sample_groupby_sum"
    "sort_values_desc example_lib = (\<lambda>c df. df)"
    by (simp_all add: example_lib_def)
  show ?thesis
    using a b aggregations_use_existing_columns [OF a b, of example_lib 10]
    by (simp add: g sample_groupby_sum_def enriched_sample_def round_column_def head_def
        column_sum_def select_def round2_99)
qed

section \<open>writers.py: the bad-rows file\<close>

lemma mkdir_self: "p \<noteq> [] \<Longrightarrow> p \<in> dirs (mkdir p s)"
proof -
  assume "p \<noteq> []"
  then have "length p \<in> set [1..<Suc (length p)]" by (cases p) auto
  then have "take (length p) p \<in> set (map (\<lambda>n. take n p) [1..<Suc (length p)])"
    unfolding set_map by (rule imageI)
  then show ?thesis by (simp add: mkdir_def)
qed

text \<open>
  C7. Called outside any existing directory with no bad-rows table, \<^verbatim>\<open>write_bad_rows_csv\<close>
  returns the absent-path marker, yet it has made the output directory: the call is not
  without effect.
\<close>

theorem empty_bad_rows_creates_directory:
  "fst (write_bad_rows_csv None ''products-bad'' [''output'', ''bad_rows''] empty_fs) = None
   \<and> snd (write_bad_rows_csv None ''products-bad'' [''output'', ''bad_rows''] empty_fs) \<noteq> empty_fs
   \<and> [''output'', ''bad_rows'']
        \<in> dirs (snd (write_bad_rows_csv None ''products-bad'' [''output'', ''bad_rows''] empty_fs))"
proof -
  have w: "write_bad_rows_csv None ''products-bad'' [''output'', ''bad_rows''] empty_fs
             = (None, mkdir [''output'', ''bad_rows''] empty_fs)"
    by (simp add: write_bad_rows_csv_def Let_def)
  have d: "[''output'', ''bad_rows''] \<in> dirs (mkdir [''output'', ''bad_rows''] empty_fs)"
    by (rule mkdir_self) simp
  have "dirs empty_fs = {}" by (simp add: empty_fs_def)
  with d have "mkdir [''output'', ''bad_rows''] empty_fs \<noteq> empty_fs" by auto
  with d show ?thesis unfolding w by simp
qed

text \<open>
  C7, amended. For an empty or absent bad-rows table, \<^verbatim>\<open>write_bad_rows_csv\<close> returns the
  absent-path marker and leaves every file as it was: it creates neither the target file
  nor a temporary one. Its only effect is that the output directory and its parents exist.
\<close>

theorem empty_bad_rows_write_no_file:
  assumes "case bad_df of None \<Rightarrow> True | Some b \<Rightarrow> empty b"
  shows "write_bad_rows_csv bad_df name output_dir s = (None, mkdir output_dir s)
     \<and> files (mkdir output_dir s) = files s
     \<and> dirs (mkdir output_dir s) =
         dirs s \<union> {take n output_dir |n. 1 \<le> n \<and> n \<le> length output_dir}"
  using assms
  by (auto simp: write_bad_rows_csv_def mkdir_def Let_def split: option.splits)

theorem empty_bad_rows_write_no_file_witness:
  "empty \<lparr>columns = [''order_id'', ''_error''], records = []\<rparr>
   \<and> write_bad_rows_csv (Some \<lparr>columns = [''order_id'', ''_error''], records = []\<rparr>)
        ''orders-20251025-bad'' [''output'', ''bad_rows''] empty_fs
       = (None, \<lparr>files = Map.empty, dirs = {[''output''], [''output'', ''bad_rows'']}\<rparr>)"
proof -
  have e: "empty \<lparr>columns = [''order_id'', ''_error''], records = []\<rparr>"
    by (simp add: empty_def)
  then have "case Some \<lparr>columns = [''order_id'', ''_error''], records = []\<rparr> of
               None \<Rightarrow> True | Some b \<Rightarrow> empty b"
    by simp
  from empty_bad_rows_write_no_file [OF this, of "''orders-20251025-bad''"
      "[''output'', ''bad_rows'']" empty_fs] e
  show ?thesis
    by (auto simp: mkdir_def empty_fs_def)
qed

section \<open>cli.py: the run for one date\<close>

lemma length_column [simp]: "length (column df c) = length (records df)"
  by (simp add: column_def)

lemma length_records_set_column:
  "length vs = length (records df) \<Longrightarrow> length (records (set_column c vs df)) = length (records df)"
  by (simp add: set_column_def)

lemma normalize_name_length:
  "normalize_name n a df = (df', dup) \<Longrightarrow> length (records df') = length (records df)"
  by (auto simp: normalize_name_def rename_column_def split: if_splits list.splits)

lemma add_order_total_length:
  assumes "add_order_total L df = Inr out"
  shows "length (records out) = length (records df)"
proof -
  obtain df1 d1 where n1: "normalize_name ''qty'' [''qty''] df = (df1, d1)"
    by (cases "normalize_name ''qty'' [''qty''] df")
  obtain df2 d2 where n2: "normalize_name ''unit_price'' [''unitprice'', ''unit_price'', ''price''] df1
                             = (df2, d2)"
    by (cases "normalize_name ''unit_price'' [''unitprice'', ''unit_price'', ''price''] df1")
  have l: "length (records df2) = length (records df)"
    using normalize_name_length [OF n1] normalize_name_length [OF n2] by simp
  show ?thesis
    using assms l
    by (auto simp: add_order_total_def n1 n2 Let_def length_records_set_column split: if_splits)
qed

lemma merge_left_m1_length:
  "merge_left_m1 l lk r rk = Inr e \<Longrightarrow> length lk = length (records l) \<Longrightarrow>
     length (records e) = length (records l)"
  by (auto simp: merge_left_m1_def Let_def split: if_splits)

lemma fillna_simps [simp]:
  "columns (fillna c v df) = columns df"
  "length (records (fillna c v df)) = length (records df)"
  by (simp_all add: fillna_def)

lemma enrich_with_products_length:
  assumes "enrich_with_products L orders products = Inr out"
  shows "length (records out) = length (records orders)"
proof -
  let ?left = "set_column ''product_id''
                 (numeric_column (map (to_numeric L) (column orders ''product_id''))) orders"
  have ll: "length (records ?left) = length (records orders)"
    by (simp add: length_records_set_column)
  let ?right = "rename_column ''price'' ''product_price''
                  (select_columns [''product_id'', ''product_name'', ''category'', ''price'']
                     (set_column ''product_id''
                        (numeric_column (map (to_numeric L) (column products ''product_id'')))
                        products))"
  have "\<exists>enriched. merge_left_m1 ?left (map (join_key L) (records orders)) ?right
          (map (join_key L) (records products)) = Inr enriched
          \<and> length (records out) = length (records enriched)"
    using assms unfolding enrich_with_products_unfold
    by (auto simp: Let_def split: if_splits list.splits sum.splits)
  then obtain enriched where
    m: "merge_left_m1 ?left (map (join_key L) (records orders)) ?right
          (map (join_key L) (records products)) = Inr enriched"
    and o: "length (records out) = length (records enriched)"
    by blast
  show ?thesis
    using merge_left_m1_length [OF m] ll o by simp
qed

lemma add_order_date_iso_length:
  assumes "add_order_date_iso L df d c = Inr out"
  shows "length (records out) = length (records df)"
  using assms
  by (auto simp: add_order_date_iso_def Let_def length_records_set_column to_datetime_def
      split: if_splits)

lemma transform_length:
  assumes "transform L v p = Inr out"
  shows "length (records out) = length (records v)"
proof -
  from assms obtain e1 e2 where a: "add_order_total L v = Inr e1"
    and b: "enrich_with_products L e1 p = Inr e2"
    and c: "add_order_date_iso L e2 ''order_date'' ''order_date_iso'' = Inr out"
    by (auto simp: transform_def split: sum.splits)
  show ?thesis
    using add_order_total_length [OF a] enrich_with_products_length [OF b]
      add_order_date_iso_length [OF c] by simp
qed

lemma read_products_bad_empty:
  "read_products base = Inr (products_df, products_bad) \<Longrightarrow> empty products_bad"
  by (auto simp: read_products_def empty_def split: option.splits dir_entry.splits)

lemma flush_bad_dry_run [simp]: "flush_bad b d out True s = s"
  by (simp add: flush_bad_def split: option.splits)


lemma union_columns_nonempty: "cs \<noteq> [] \<Longrightarrow> union_columns cs ds \<noteq> []"
  by (induction ds arbitrary: cs) simp_all

lemma union_columns_Nil [simp]: "union_columns cs [] = cs"
  by simp

lemma parse_date_column_bad_columns:
  assumes "parse_date_column L df c fmt = Inr (good, bad)"
  shows "columns bad \<noteq> []"
proof -
  have "c \<in> set (columns df)"
    using assms by (auto simp: parse_date_column_def split: if_splits)
  then have "columns df \<noteq> []" by auto
  then show ?thesis
    using assms by (auto simp: parse_date_column_def Let_def split: if_splits)
qed

lemma parse_date_column_length:
  assumes "parse_date_column L df c fmt = Inr (good, bad)"
  shows "length (records good) + length (records bad) = length (records df)"
proof -
  let ?S = "strict_parse L df c fmt"
  let ?F = "flexible_parse L df c fmt"
  let ?B = "strict_failures L df c fmt"
  have c: "c \<in> set (columns df)"
    using assms by (auto simp: parse_date_column_def split: if_splits)
  from parse_date_column_records [OF c, of L fmt] assms
  have g: "length (records good) = length (filter (\<lambda>r. ?S r \<noteq> None) (records df))
             + length (filter (\<lambda>r. ?F r \<noteq> None) ?B)"
    and b: "length (records bad) = length (filter (\<lambda>r. \<not> ?F r \<noteq> None) ?B)"
    by auto
  have "length ?B = length (filter (\<lambda>r. \<not> ?S r \<noteq> None) (records df))"
    by (simp add: strict_failures_def)
  then show ?thesis
    using g b sum_length_filter_compl [of "\<lambda>r. ?F r \<noteq> None" ?B]
      sum_length_filter_compl [of "\<lambda>r. ?S r \<noteq> None" "records df"]
    by linarith
qed

lemma validate_dataframe_columns:
  "records (snd (validate_dataframe df S)) \<noteq> [] \<Longrightarrow> columns (snd (validate_dataframe df S)) \<noteq> []"
  "records (fst (validate_dataframe df S)) = [] \<Longrightarrow> empty (fst (validate_dataframe df S))"
  by (auto simp: validate_dataframe_def DataFrame_def empty_def split: prod.splits if_splits)

lemma combine_bad_length:
  assumes "columns bad \<noteq> []" "records invalid \<noteq> [] \<Longrightarrow> columns invalid \<noteq> []"
  shows "(case combine_bad bad invalid of None \<Rightarrow> 0 | Some b \<Rightarrow> length (records b))
           = length (records bad) + length (records invalid)"
    and "combine_bad bad invalid = None \<Longrightarrow> records bad = [] \<and> records invalid = []"
    and "combine_bad bad invalid = Some b \<Longrightarrow> \<not> empty b"
  using assms
  by (auto simp: combine_bad_def empty_def Let_def union_columns_nonempty split: if_splits)

lemma tmp_differs: "dir @ [''.'' @ name @ ''.csv.tmp''] \<noteq> dir @ [name @ ''.csv'']"
proof
  assume "dir @ [''.'' @ name @ ''.csv.tmp''] = dir @ [name @ ''.csv'']"
  then have "length (''.'' @ name @ ''.csv.tmp'') = length (name @ ''.csv'')" by simp
  then show False by simp
qed

lemma write_bad_rows_csv_file:
  "\<not> empty b \<Longrightarrow>
     files (snd (write_bad_rows_csv (Some b) name dir s)) (dir @ [name @ ''.csv'']) = Some (Csv b)"
  using tmp_differs [of dir name]
  by (simp add: write_bad_rows_csv_def Let_def replace_def write_file_def)

text \<open>
  C5. When the order file of the date is read and every row of it fails the date parse or
  the validation, \<^verbatim>\<open>run_for_date\<close> raises nothing and returns the summary with \<^verbatim>\<open>rows\<close> 0,
  \<^verbatim>\<open>revenue\<close> 0.0, no \<^verbatim>\<open>parquet_path\<close> and \<^verbatim>\<open>bad_rows\<close> the number of rows of the file.
  Outside a dry run the bad rows, as many as the file has rows, are then in
  \<^verbatim>\<open>bad_rows/orders-<date>-bad.csv\<close>; a file without rows has no bad-rows table, and nothing
  is written for it. A dry run writes nothing.
\<close>

theorem no_valid_orders_summary:
  assumes rp: "read_products base = Inr (products_df, products_bad)"
    and cand: "candidates d base = df # others"
    and p: "parse_date_column L df ''order_date'' (Some ''%Y-%m-%d'') = Inr (good, bad)"
    and nv: "\<forall>r \<in> set (records good). S r \<noteq> None"
  shows "fst (run_for_date L S d base out dry_run s)
           = Inr \<lparr>date = d, rows = 0, revenue = 0, bad_rows = length (records df),
                  parquet_path = None\<rparr>
     \<and> (dry_run \<or> records df = [] \<longrightarrow> snd (run_for_date L S d base out dry_run s) = s)
     \<and> (\<not> dry_run \<and> records df \<noteq> [] \<longrightarrow>
           (\<exists>b. files (snd (run_for_date L S d base out dry_run s))
                   (out @ [''bad_rows''] @ [(''orders-'' @ d @ ''-bad'') @ ''.csv'']) = Some (Csv b)
                \<and> length (records b) = length (records df)))"
proof -
  obtain valid invalid where v: "validate_dataframe good S = (valid, invalid)"
    by (cases "validate_dataframe good S")
  have eb: "empty products_bad"
    using rp by (rule read_products_bad_empty)
  have ro: "read_orders_for_date L d base = Inr (good, bad)"
    using cand p by (simp add: read_orders_for_date_def)
  have rv: "records valid = []"
    using validate_dataframe_records(1) [of good S] v nv by (simp add: filter_empty_conv)
  then have ev: "empty valid"
    using validate_dataframe_columns(2) [of good S] v by simp
  have "filter (\<lambda>r. S r \<noteq> None) (records good) = records good"
    using nv by (simp add: filter_id_conv)
  then have li: "length (records invalid) = length (records good)"
    using validate_dataframe_records(2) [of good S] v by simp
  have ci: "records invalid \<noteq> [] \<Longrightarrow> columns invalid \<noteq> []"
    using validate_dataframe_columns(1) [of good S] v by simp
  have cb: "columns bad \<noteq> []"
    using p by (rule parse_date_column_bad_columns)
  have n: "(case combine_bad bad invalid of None \<Rightarrow> 0 | Some b \<Rightarrow> length (records b))
             = length (records df)"
    using combine_bad_length(1) [OF cb ci] li parse_date_column_length [OF p] by simp
  have run: "run_for_date L S d base out dry_run s
               = (Inr \<lparr>date = d, rows = 0, revenue = 0, bad_rows = length (records df),
                        parquet_path = None\<rparr>,
                  flush_bad (combine_bad bad invalid) d out dry_run s)"
    using rp eb ro v ev n by (simp add: run_for_date_def Let_def)
  have a: "flush_bad (combine_bad bad invalid) d out dry_run s = s"
    if "dry_run \<or> records df = []"
  proof (cases dry_run)
    case True
    then show ?thesis by simp
  next
    case False
    with that have "records df = []" by simp
    then have "combine_bad bad invalid = None"
      using n combine_bad_length(3) [OF cb ci]
      by (cases "combine_bad bad invalid") (auto simp: empty_def)
    then show ?thesis by (simp add: flush_bad_def)
  qed
  have b: "\<exists>b. files (flush_bad (combine_bad bad invalid) d out dry_run s)
                   (out @ [''bad_rows''] @ [(''orders-'' @ d @ ''-bad'') @ ''.csv'']) = Some (Csv b)
                \<and> length (records b) = length (records df)"
    if "\<not> dry_run" "records df \<noteq> []"
  proof -
    from that(2) n obtain b where cbs: "combine_bad bad invalid = Some b"
      by (cases "combine_bad bad invalid") auto
    then have ne: "\<not> empty b" using combine_bad_length(3) [OF cb ci] by simp
    have l: "length (records b) = length (records df)" using n cbs by simp
    have "files (flush_bad (Some b) d out False s)
            ((out @ [''bad_rows'']) @ [(''orders-'' @ d @ ''-bad'') @ ''.csv'']) = Some (Csv b)"
      using ne write_bad_rows_csv_file [OF ne, of "''orders-'' @ d @ ''-bad''" "out @ [''bad_rows'']" s]
      by (simp add: flush_bad_def)
    then show ?thesis using cbs l that(1) by auto
  qed
  show ?thesis
    unfolding run using a b by simp
qed

lemma lower_orders: "lower ''orders_20251025.csv'' = ''orders_20251025.csv''"
  "lower ''products.csv'' = ''products.csv''"
  by (simp_all add: lower_def lower_char_def)

lemma failing_dir_files:
  "read_products failing_dir = Inr (example_products, \<lparr>columns = [], records = []\<rparr>)"
  "candidates ''20251025'' failing_dir = [failing_orders]"
  by (simp_all add: read_products_def candidates_def failing_dir_def lower_orders)

lemma parse_examples:
  "strict_parse example_lib df ''order_date'' (Some ''%Y-%m-%d'') r =
     (if r ''order_date'' = Some (StrV ''2025-10-25'')
      then Some (DateV \<lparr>ts_year = 2025, ts_month = 10, ts_day = 25, ts_nanos = 0\<rparr>)
      else case r ''order_date'' of Some (DateV t) \<Rightarrow> Some (DateV t) | _ \<Rightarrow> None)"
  "flexible_parse example_lib df ''order_date'' (Some ''%Y-%m-%d'') r =
     (if r ''order_date'' = Some (StrV ''2025-10-25'') \<or> r ''order_date'' = Some (StrV ''25 Oct 2025'')
      then Some (DateV \<lparr>ts_year = 2025, ts_month = 10, ts_day = 25, ts_nanos = 0\<rparr>)
      else case r ''order_date'' of Some (DateV t) \<Rightarrow> Some (DateV t) | _ \<Rightarrow> None)"
  by (auto simp: strict_parse_def flexible_parse_def convert_datetime_def example_lib_def truthy_def
      split: option.splits cell.splits)

theorem no_valid_orders_summary_witness:
  "fst (run_for_date example_lib qty_schema ''20251025'' failing_dir [''output''] False empty_fs)
     = Inr \<lparr>date = ''20251025'', rows = 0, revenue = 0, bad_rows = 2, parquet_path = None\<rparr>
   \<and> (\<exists>b. files (snd (run_for_date example_lib qty_schema ''20251025'' failing_dir [''output'']
                        False empty_fs))
              [''output'', ''bad_rows'', ''orders-20251025-bad.csv''] = Some (Csv b)
          \<and> length (records b) = 2)"
proof -
  let ?S = "strict_parse example_lib failing_orders ''order_date'' (Some ''%Y-%m-%d'')"
  let ?F = "flexible_parse example_lib failing_orders ''order_date'' (Some ''%Y-%m-%d'')"
  have c: "''order_date'' \<in> set (columns failing_orders)"
    by (simp add: failing_orders_def)
  have r: "records failing_orders
             = [order_row 4 ''soon'' 1001 1 1, order_row 5 ''2025-10-25'' 1001 (- 1) 1]"
    by (simp add: failing_orders_def)
  have B: "strict_failures example_lib failing_orders ''order_date'' (Some ''%Y-%m-%d'') =
             [(order_row 4 ''soon'' 1001 1 1)
                (''_parse_error'' := Some (StrV (strict_error ''order_date'' (Some ''%Y-%m-%d''))))]"
    by (simp add: strict_failures_def r parse_examples order_row_def)
  obtain good bad where
    p: "parse_date_column example_lib failing_orders ''order_date'' (Some ''%Y-%m-%d'')
          = Inr (good, bad)"
    and g: "records good =
         map (\<lambda>r. r(''order_date'' := ?S r)) (filter (\<lambda>r. ?S r \<noteq> None) (records failing_orders))
         @ map (\<lambda>r. r(''order_date'' := ?F r)) (filter (\<lambda>r. ?F r \<noteq> None)
               (strict_failures example_lib failing_orders ''order_date'' (Some ''%Y-%m-%d'')))"
    using parse_date_column_records [OF c, of example_lib "Some ''%Y-%m-%d''"] by blast
  have nv: "\<forall>r \<in> set (records good). qty_schema r \<noteq> None"
    unfolding g B by (simp add: r parse_examples order_row_def qty_schema_def)
  have n: "length (records failing_orders) = 2" "records failing_orders \<noteq> []"
    by (simp_all add: r)
  show ?thesis
    using no_valid_orders_summary [OF failing_dir_files p nv, of "[''output'']" False empty_fs] n
    by simp
qed

section \<open>cli.py: the date of the persisted summary\<close>

lemma convert_datetime_cases:
  "convert_datetime L fmt col v = None \<or> (\<exists>t. convert_datetime L fmt col v = Some (DateV t))"
  by (auto simp: convert_datetime_def split: option.splits cell.splits)

lemma convert_datetime_date [simp]:
  "convert_datetime L fmt col (Some (DateV t)) = Some (DateV t)"
  by (simp add: convert_datetime_def)

lemma parse_date_column_good_dates:
  assumes "parse_date_column L df c fmt = Inr (good, bad)"
  shows "\<forall>r \<in> set (records good). \<exists>t. r c = Some (DateV t)"
proof -
  have c: "c \<in> set (columns df)"
    using assms by (auto simp: parse_date_column_def split: if_splits)
  have s: "\<exists>t. y = DateV t" if "strict_parse L df c fmt r = Some y" for r y
    using that convert_datetime_cases [of L "if truthy fmt then fmt else None" "column df c" "r c"]
    unfolding strict_parse_def by auto
  have f: "\<exists>t. y = DateV t" if "flexible_parse L df c fmt r = Some y" for r y
    using that
      convert_datetime_cases [of L None "map (\<lambda>b. b c) (strict_failures L df c fmt)" "r c"]
    unfolding flexible_parse_def by auto
  from parse_date_column_records [OF c, of L fmt] assms
  have "records good =
         map (\<lambda>r. r(c := strict_parse L df c fmt r))
           (filter (\<lambda>r. strict_parse L df c fmt r \<noteq> None) (records df))
         @ map (\<lambda>r. r(c := flexible_parse L df c fmt r))
             (filter (\<lambda>r. flexible_parse L df c fmt r \<noteq> None) (strict_failures L df c fmt))"
    by auto
  then show ?thesis using s f by auto
qed

lemma lower_order_date: "lower ''order_date'' = ''order_date''"
  by (simp add: lower_def lower_char_def)

lemma normalize_name_other_column:
  assumes n: "normalize_name name aliases df = (df', dup)" and "name \<noteq> col"
    and a: "lower col \<notin> set aliases"
  shows "column df' col = column df col"
proof (cases "name \<in> set (columns df)")
  case True
  then show ?thesis using n by (simp add: normalize_name_def)
next
  case False
  show ?thesis
  proof (cases "filter (\<lambda>c. lower c \<in> set aliases) (columns df)")
    case Nil
    then show ?thesis using n False by (simp add: normalize_name_def)
  next
    case (Cons c cs)
    then have "c \<in> set (filter (\<lambda>c. lower c \<in> set aliases) (columns df))" by simp
    then have "c \<noteq> col" using a by auto
    then show ?thesis
      using n False Cons assms(2)
      by (cases cs) (auto simp: normalize_name_def rename_column_def column_def)
  qed
qed

lemma column_set_column_other:
  "c \<noteq> col \<Longrightarrow> length vs = length (records df) \<Longrightarrow> column (set_column c vs df) col = column df col"
proof -
  assume n: "c \<noteq> col" and l: "length vs = length (records df)"
  have "map (\<lambda>r. r col) (map (\<lambda>(r, v). r(c := v)) (zip (records df) vs))
          = map (\<lambda>r. r col) (map fst (zip (records df) vs))"
    using n by (simp add: split_def)
  also have "\<dots> = map (\<lambda>r. r col) (records df)"
    using l by (simp only: map_fst_zip)
  finally show ?thesis by (simp add: column_def set_column_def)
qed

lemma add_order_total_order_date:
  assumes "add_order_total L df = Inr out"
  shows "column out ''order_date'' = column df ''order_date''"
proof -
  obtain df1 d1 where n1: "normalize_name ''qty'' [''qty''] df = (df1, d1)"
    by (cases "normalize_name ''qty'' [''qty''] df")
  obtain df2 d2 where n2: "normalize_name ''unit_price'' [''unitprice'', ''unit_price'', ''price''] df1
                             = (df2, d2)"
    by (cases "normalize_name ''unit_price'' [''unitprice'', ''unit_price'', ''price''] df1")
  have l: "column df2 ''order_date'' = column df ''order_date''"
    using normalize_name_other_column [OF n1, of "''order_date''"]
      normalize_name_other_column [OF n2, of "''order_date''"]
    by (simp add: lower_order_date)
  show ?thesis
    using assms l
    by (auto simp: add_order_total_def n1 n2 Let_def column_set_column_other
          length_records_set_column split: if_splits)
qed

lemma fold_suffix_order_date:
  "set ov \<subseteq> set product_columns \<Longrightarrow>
     fold (\<lambda>c r. (r(c := None))(c @ ''_x'' := l c)) ov l0 ''order_date'' = l0 ''order_date''"
  by (induction ov arbitrary: l0) (auto simp: product_columns_def)

lemma merge_row_order_date:
  assumes "set ov \<subseteq> set product_columns"
  shows "merge_row ov l p ''order_date'' = l ''order_date''"
  using fold_suffix_order_date [OF assms, of l l]
  by (simp add: merge_row_def product_columns_def)

lemma merge_left_m1_order_date:
  assumes "merge_left_m1 l lk r rk = Inr e" "length lk = length (records l)"
  shows "column e ''order_date'' = column l ''order_date''"
proof -
  let ?ov = "filter (\<lambda>c. c \<in> set (columns l)) product_columns"
  have ov: "set ?ov \<subseteq> set product_columns" by auto
  have "records e = map (\<lambda>(k, x). merge_row ?ov x (map_of (zip rk (records r)) k))
                      (zip lk (records l))"
    using assms(1) by (auto simp: merge_left_m1_def Let_def split: if_splits)
  then have "column e ''order_date'' = map (\<lambda>x. x ''order_date'') (map snd (zip lk (records l)))"
    by (simp add: column_def split_def merge_row_order_date [OF ov])
  then show ?thesis
    using assms(2) by (simp add: column_def)
qed

lemma column_fillna_other:
  "c \<noteq> col \<Longrightarrow> column (fillna c v df) col = column df col"
  by (simp add: column_def fillna_def)

lemma enrich_with_products_order_date:
  assumes "enrich_with_products L orders products = Inr out"
  shows "column out ''order_date'' = column orders ''order_date''"
proof -
  let ?left = "set_column ''product_id''
                 (numeric_column (map (to_numeric L) (column orders ''product_id''))) orders"
  let ?right = "rename_column ''price'' ''product_price''
                  (select_columns [''product_id'', ''product_name'', ''category'', ''price'']
                     (set_column ''product_id''
                        (numeric_column (map (to_numeric L) (column products ''product_id'')))
                        products))"
  have ll: "length (records ?left) = length (records orders)"
    by (simp add: length_records_set_column)
  have cl: "column ?left ''order_date'' = column orders ''order_date''"
    by (simp add: column_set_column_other)
  have "\<exists>enriched. merge_left_m1 ?left (map (join_key L) (records orders)) ?right
          (map (join_key L) (records products)) = Inr enriched
          \<and> column out ''order_date'' = column enriched ''order_date''"
    using assms unfolding enrich_with_products_unfold
    by (auto simp: Let_def column_fillna_other split: if_splits list.splits sum.splits)
  then obtain enriched where
    m: "merge_left_m1 ?left (map (join_key L) (records orders)) ?right
          (map (join_key L) (records products)) = Inr enriched"
    and o: "column out ''order_date'' = column enriched ''order_date''"
    by blast
  show ?thesis
    using merge_left_m1_order_date [OF m] ll o cl by simp
qed

lemma add_order_date_iso_first:
  assumes "add_order_date_iso L df ''order_date'' ''order_date_iso'' = Inr out"
    and "records df = r0 # rest" "r0 ''order_date'' = Some (DateV t)"
  shows "\<exists>e0 erest. records out = e0 # erest
           \<and> e0 ''order_date_iso'' = Some (StrV (strftime_iso t))"
  using assms
  by (auto simp: add_order_date_iso_def Let_def set_column_def column_def to_datetime_def
      split: if_splits)

lemma transform_first:
  assumes t: "transform L v p = Inr out"
    and r: "records v = r0 # rest" "r0 ''order_date'' = Some (DateV t)"
  shows "\<exists>e0 erest. records out = e0 # erest
           \<and> e0 ''order_date_iso'' = Some (StrV (strftime_iso t))"
proof -
  from t obtain e1 e2 where a: "add_order_total L v = Inr e1"
    and b: "enrich_with_products L e1 p = Inr e2"
    and c: "add_order_date_iso L e2 ''order_date'' ''order_date_iso'' = Inr out"
    by (auto simp: transform_def split: sum.splits)
  have "column e2 ''order_date'' = column v ''order_date''"
    using add_order_total_order_date [OF a] enrich_with_products_order_date [OF b] by simp
  then have "map (\<lambda>x. x ''order_date'') (records e2) = Some (DateV t) # map (\<lambda>x. x ''order_date'') rest"
    using r by (simp add: column_def)
  then obtain x0 xs where "records e2 = x0 # xs" "x0 ''order_date'' = Some (DateV t)"
    by (cases "records e2") auto
  then show ?thesis
    using add_order_date_iso_first [OF c] by blast
qed

lemma parse_date_column_good_columns:
  assumes "parse_date_column L df c fmt = Inr (good, bad)"
  shows "columns good \<noteq> []"
proof -
  have "c \<in> set (columns df)"
    using assms by (auto simp: parse_date_column_def split: if_splits)
  then have "columns df \<noteq> []" by auto
  then show ?thesis
    using assms
    by (auto simp: parse_date_column_def Let_def union_columns_nonempty split: if_splits)
qed

lemma read_orders_for_date_good:
  assumes "read_orders_for_date L d base = Inr (good, bad)"
  shows "columns good \<noteq> []" and "\<forall>r \<in> set (records good). \<exists>t. r ''order_date'' = Some (DateV t)"
  using assms parse_date_column_good_columns parse_date_column_good_dates
  by (auto simp: read_orders_for_date_def split: list.splits)

lemma length_strftime_iso [simp]: "length (strftime_iso t) = 10"
  by (simp add: strftime_iso_def)

lemma strftime_iso_hyphens: "strftime_iso t ! 4 = CHR ''-''" "strftime_iso t ! 7 = CHR ''-''"
  by (simp_all add: strftime_iso_def)

lemma write_summary_json_file:
  assumes "map_of summary ''date'' = Some (Some (StrV ds))"
  shows "files (snd (write_summary_json L summary dir s)) (dir @ [''summary_'' @ ds @ ''.json''])
           = Some (Json summary)"
proof -
  have "length ((''summary_'' @ ds @ ''.json'') @ ''.tmp'') \<noteq> length (''summary_'' @ ds @ ''.json'')"
    by simp
  then have "(''summary_'' @ ds @ ''.json'') @ ''.tmp'' \<noteq> ''summary_'' @ ds @ ''.json''"
    by metis
  then show ?thesis
    using assms
    by (simp add: write_summary_json_def Let_def py_str_def replace_def write_file_def)
qed

lemma flush_bad_other_dir:
  "files (flush_bad b d out dry s) (out @ [''summaries''] @ [f]) = files s (out @ [''summaries''] @ [f])"
  by (auto simp: flush_bad_def write_bad_rows_csv_def Let_def replace_def write_file_def mkdir_def
      split: option.splits)

text \<open>
  C10. After a run that is not a dry run, returns a summary and had at least one valid order
  row, the file \<^verbatim>\<open>summaries/summary_<date>.json\<close> holds the date of the first valid row, which
  is the first enriched row, in the form YYYY-MM-DD: ten characters with hyphens at the
  fifth and the eighth place. That date is in the name of the file and in its \<^verbatim>\<open>date\<close>
  field, next to the \<^verbatim>\<open>rows\<close> and \<^verbatim>\<open>revenue\<close> of the summary returned. The \<^verbatim>\<open>date\<close> of the
  summary returned is the date string the caller gave, so the two differ whenever that
  string is of the form YYYYMMDD.
\<close>

theorem persisted_summary_date_is_iso:
  assumes ro: "read_orders_for_date L d base = Inr (good, bad)"
    and v: "records (fst (validate_dataframe good S)) = r0 # rest"
    and run: "run_for_date L S d base out False s = (Inr smry, s')"
  shows "\<exists>t. r0 ''order_date'' = Some (DateV t)
     \<and> files s' (out @ [''summaries''] @ [''summary_'' @ strftime_iso t @ ''.json''])
         = Some (Json [(''date'', Some (StrV (strftime_iso t))),
                       (''rows'', Some (IntV (int (rows smry)))),
                       (''revenue'', Some (FloatV (revenue smry)))])
     \<and> length (strftime_iso t) = 10
     \<and> strftime_iso t ! 4 = CHR ''-'' \<and> strftime_iso t ! 7 = CHR ''-''
     \<and> date smry = d
     \<and> (length d = 8 \<longrightarrow> strftime_iso t \<noteq> d)"
proof -
  obtain valid invalid where vd: "validate_dataframe good S = (valid, invalid)"
    by (cases "validate_dataframe good S")
  have rv: "records valid = r0 # rest" using v vd by simp
  have "r0 \<in> set (records good)"
    using validate_dataframe_records(1) [of good S] vd rv
    by (metis filter_is_subset fst_conv list.set_intros(1) subsetD)
  then obtain t where t: "r0 ''order_date'' = Some (DateV t)"
    using read_orders_for_date_good(2) [OF ro] by blast
  have "columns valid = columns good"
    using vd rv by (auto simp: validate_dataframe_def DataFrame_def split: prod.splits if_splits)
  then have ne: "\<not> empty valid"
    using rv read_orders_for_date_good(1) [OF ro] by (simp add: empty_def)
  obtain products_df products_bad where rp: "read_products base = Inr (products_df, products_bad)"
    using run by (cases "read_products base") (auto simp: run_for_date_def)
  have eb: "empty products_bad" using rp by (rule read_products_bad_empty)
  obtain enriched where tr: "transform L valid products_df = Inr enriched"
    using run rp eb ro vd ne
    by (cases "transform L valid products_df") (auto simp: run_for_date_def Let_def)
  obtain e0 erest where re: "records enriched = e0 # erest"
    and iso: "e0 ''order_date_iso'' = Some (StrV (strftime_iso t))"
    using transform_first [OF tr rv t] by blast
  let ?rev = "if ''order_total'' \<in> set (columns enriched)
              then round2 (column_sum ''order_total'' enriched) else 0"
  let ?obj = "[(''date'', Some (StrV (strftime_iso t))),
               (''rows'', Some (IntV (int (length (records enriched))))),
               (''revenue'', Some (FloatV ?rev))]"
  let ?s2 = "snd (write_parquet_partition enriched (strftime_iso t) (out @ [''processed'']) s)"
  let ?s3 = "snd (write_summary_json L ?obj (out @ [''summaries'']) ?s2)"
  have res: "smry = \<lparr>date = d, rows = length (records enriched), revenue = ?rev,
                      bad_rows = (case combine_bad bad invalid of None \<Rightarrow> 0
                                  | Some b \<Rightarrow> length (records b)),
                      parquet_path = Some (fst (write_parquet_partition enriched (strftime_iso t)
                                                  (out @ [''processed'']) s))\<rparr>"
    and st: "s' = flush_bad (combine_bad bad invalid) d out False ?s3"
    using run rp eb ro vd ne tr re iso
    by (simp_all add: run_for_date_def Let_def py_str_def split_def)
  have "files ?s3 ((out @ [''summaries'']) @ [''summary_'' @ strftime_iso t @ ''.json''])
          = Some (Json ?obj)"
    by (rule write_summary_json_file) simp
  then have f: "files s' (out @ [''summaries''] @ [''summary_'' @ strftime_iso t @ ''.json''])
          = Some (Json ?obj)"
    unfolding st flush_bad_other_dir by simp
  have "length d = 8 \<longrightarrow> strftime_iso t \<noteq> d"
    using length_strftime_iso [of t] by auto
  then show ?thesis
    using t f res strftime_iso_hyphens [of t] by (intro exI [of _ t]) simp
qed

lemma transform_succeeds:
  assumes "{''qty'', ''unit_price'', ''product_id'', ''order_date''} \<subseteq> set (columns v)"
    and "set product_columns \<inter> set (columns v) = {}"
    and "{''product_id'', ''product_name'', ''category'', ''price''} \<subseteq> set (columns p)"
    and "distinct (map (join_key L) (records p))"
  shows "\<exists>e. transform L v p = Inr e"
proof -
  obtain e1 where a: "add_order_total L v = Inr e1"
    and c1: "columns e1 = add_column ''order_total'' (columns v)"
    using add_order_total_present [of v L] assms(1) by auto
  let ?left = "set_column ''product_id''
                 (numeric_column (map (to_numeric L) (column e1 ''product_id''))) e1"
  have ov: "filter (\<lambda>c. c \<in> set (columns ?left)) product_columns = []"
    using assms(1,2) c1 by (auto simp: filter_empty_conv product_columns_def)
  have "\<exists>e2. enrich_with_products L e1 p = Inr e2 \<and> ''order_date'' \<in> set (columns e2)"
    unfolding enrich_with_products_unfold merge_left_m1_def ov
    using assms c1 by (simp add: Let_def product_columns_def)
  then obtain e2 where b: "enrich_with_products L e1 p = Inr e2"
    and c2: "''order_date'' \<in> set (columns e2)" by blast
  show ?thesis
    using a b c2 by (simp add: transform_def add_order_date_iso_def Let_def)
qed

lemma run_for_date_returns:
  assumes rp: "read_products base = Inr (products_df, products_bad)"
    and ro: "read_orders_for_date L d base = Inr (good, bad)"
    and tr: "transform L (fst (validate_dataframe good S)) products_df = Inr enriched"
  shows "\<exists>smry s'. run_for_date L S d base out dry s = (Inr smry, s')"
proof -
  obtain valid invalid where vd: "validate_dataframe good S = (valid, invalid)"
    by (cases "validate_dataframe good S")
  have eb: "empty products_bad" using rp by (rule read_products_bad_empty)
  have l: "length (records enriched) = length (records valid)"
    using transform_length [OF tr] vd by simp
  show ?thesis
  proof (cases "empty valid")
    case True
    then show ?thesis using rp eb ro vd by (simp add: run_for_date_def Let_def)
  next
    case False
    then have "records enriched \<noteq> []" using l by (auto simp: empty_def)
    then obtain e0 er where "records enriched = e0 # er" by (cases "records enriched") auto
    then show ?thesis
      using rp eb ro vd tr False by (simp add: run_for_date_def Let_def split_def)
  qed
qed

lemma example_dir_files:
  "read_products example_dir = Inr (example_products, \<lparr>columns = [], records = []\<rparr>)"
  "candidates ''20251025'' example_dir = [example_orders]"
  by (simp_all add: read_products_def candidates_def example_dir_def lower_orders)

lemma convert_datetime_example:
  "convert_datetime example_lib fmt col v =
     (if v = Some (StrV ''2025-10-25'') \<or> (fmt = None \<and> v = Some (StrV ''25 Oct 2025''))
      then Some (DateV \<lparr>ts_year = 2025, ts_month = 10, ts_day = 25, ts_nanos = 0\<rparr>)
      else case v of Some (DateV t) \<Rightarrow> Some (DateV t) | _ \<Rightarrow> None)"
  by (auto simp: convert_datetime_def example_lib_def split: option.splits cell.splits)

lemma example_orders_parsed:
  "\<exists>good bad. read_orders_for_date example_lib ''20251025'' example_dir = Inr (good, bad)
     \<and> columns good = [''order_id'', ''order_date'', ''product_id'', ''qty'', ''unit_price'',
                        ''_parse_error'']
     \<and> (\<exists>g1 g2. records good = [g1, g2]
           \<and> g1 ''order_date'' = Some (DateV \<lparr>ts_year = 2025, ts_month = 10, ts_day = 25, ts_nanos = 0\<rparr>)
           \<and> g1 ''qty'' = Some (IntV 1) \<and> g2 ''qty'' = Some (IntV 2))"
  by (simp add: read_orders_for_date_def example_dir_files parse_date_column_def Let_def
      example_orders_def to_datetime_def convert_datetime_example column_def isna_def select_def
      empty_def order_row_def truthy_def set_column_def add_column_def)

lemma strftime_iso_example:
  "strftime_iso \<lparr>ts_year = 2025, ts_month = 10, ts_day = 25, ts_nanos = 0\<rparr> = ''2025-10-25''"
  by (simp add: strftime_iso_def digit_def)

theorem persisted_summary_date_is_iso_witness:
  "\<exists>smry s'. run_for_date example_lib qty_schema ''20251025'' example_dir [''output''] False empty_fs
       = (Inr smry, s')
     \<and> date smry = ''20251025''
     \<and> files s' [''output'', ''summaries'', ''summary_2025-10-25.json'']
         = Some (Json [(''date'', Some (StrV ''2025-10-25'')),
                       (''rows'', Some (IntV (int (rows smry)))),
                       (''revenue'', Some (FloatV (revenue smry)))])"
proof -
  obtain good bad g1 g2 where
    ro: "read_orders_for_date example_lib ''20251025'' example_dir = Inr (good, bad)"
    and cg: "columns good = [''order_id'', ''order_date'', ''product_id'', ''qty'', ''unit_price'',
                             ''_parse_error'']"
    and rg: "records good = [g1, g2]"
    and g: "g1 ''order_date'' = Some (DateV \<lparr>ts_year = 2025, ts_month = 10, ts_day = 25, ts_nanos = 0\<rparr>)"
       "g1 ''qty'' = Some (IntV 1)" "g2 ''qty'' = Some (IntV 2)"
    using example_orders_parsed by blast
  have rv: "records (fst (validate_dataframe good qty_schema)) = g1 # [g2]"
    using validate_dataframe_records(1) [of good qty_schema] rg g
    by (simp add: qty_schema_def)
  have cv: "columns (fst (validate_dataframe good qty_schema)) = columns good"
    using rv by (auto simp: validate_dataframe_def DataFrame_def split: prod.splits if_splits)
  have "\<exists>e. transform example_lib (fst (validate_dataframe good qty_schema)) example_products = Inr e"
    by (rule transform_succeeds)
       (simp_all add: cv cg product_columns_def example_products_def example_join_keys)
  then obtain e where
    tr: "transform example_lib (fst (validate_dataframe good qty_schema)) example_products = Inr e"
    by blast
  obtain smry s' where
    run: "run_for_date example_lib qty_schema ''20251025'' example_dir [''output''] False empty_fs
            = (Inr smry, s')"
    using run_for_date_returns [OF example_dir_files(1) ro tr] by blast
  from persisted_summary_date_is_iso [OF ro rv run] g(1)
  have "date smry = ''20251025''
     \<and> files s' [''output'', ''summaries'', ''summary_2025-10-25.json'']
         = Some (Json [(''date'', Some (StrV ''2025-10-25'')),
                       (''rows'', Some (IntV (int (rows smry)))),
                       (''revenue'', Some (FloatV (revenue smry)))])"
    by (auto simp: strftime_iso_example)
  with run show ?thesis by blast
qed

end
